theory Spec2Isabelle
  imports Complex_Main
begin

section \<open>Data model\<close>

text \<open>
  The Logo Composer lives in the \<^verbatim>\<open>ProjectEditor\<close> component and the document export in
  \<^verbatim>\<open>exportToPDF\<close>. JavaScript numbers are modelled as mathematical reals: sums and
  comparisons are exact, and the rounding of IEEE doubles is outside the model. Strings
  are \<^typ>\<open>string\<close>, the bytes of their UTF-8 encoding. An optional field (\<^verbatim>\<open>logoSettings?\<close>, \<^verbatim>\<open>string | null\<close>) is an
  \<^typ>\<open>'a option\<close>.
\<close>

text \<open>The string-literal union of \<^verbatim>\<open>logoSettings.shape\<close>.\<close>

datatype shape =
  ShapeNone | Circle | Square | Rounded | Triangle | Hexagon | Rectangle | Oval

datatype align = AlignLeft | AlignCenter | AlignRight

text \<open>
  \<^verbatim>\<open>interface TextLayer\<close>. The fields carry the prefix \<open>tl_\<close> because \<open>id\<close>, \<open>text\<close>,
  \<open>x\<close> and \<open>y\<close> are not available as constant names.
\<close>

record TextLayer =
  tl_id :: string
  tl_text :: string
  tl_x :: real
  tl_y :: real
  tl_fontSize :: real
  tl_fontFamily :: string
  tl_color :: string
  tl_spacing :: real
  tl_rotation :: real
  tl_fontWeight :: string
  tl_align :: align

text \<open>
  \<^verbatim>\<open>Partial<TextLayer>\<close>: every key of a text layer may be present or absent; \<open>None\<close> is
  an absent key.
\<close>

record TextLayerUpdates =
  upd_id :: "string option"
  upd_text :: "string option"
  upd_x :: "real option"
  upd_y :: "real option"
  upd_fontSize :: "real option"
  upd_fontFamily :: "string option"
  upd_color :: "string option"
  upd_spacing :: "real option"
  upd_rotation :: "real option"
  upd_fontWeight :: "string option"
  upd_align :: "align option"

text \<open>The object without keys, \<^verbatim>\<open>{}\<close>.\<close>

definition no_updates :: TextLayerUpdates where
  "no_updates =
     \<lparr>upd_id = None, upd_text = None, upd_x = None, upd_y = None, upd_fontSize = None,
      upd_fontFamily = None, upd_color = None, upd_spacing = None, upd_rotation = None,
      upd_fontWeight = None, upd_align = None\<rparr>"

text \<open>One key of an object spread: the later object wins where it has the key.\<close>

definition spread_key :: "'a \<Rightarrow> 'a option \<Rightarrow> 'a" where
  "spread_key old new = (case new of None \<Rightarrow> old | Some v \<Rightarrow> v)"

text \<open>\<^verbatim>\<open>{ ...el, ...updates }\<close>\<close>

definition spread_TextLayer :: "TextLayer \<Rightarrow> TextLayerUpdates \<Rightarrow> TextLayer" where
  "spread_TextLayer el updates =
     \<lparr>tl_id = spread_key (tl_id el) (upd_id updates),
      tl_text = spread_key (tl_text el) (upd_text updates),
      tl_x = spread_key (tl_x el) (upd_x updates),
      tl_y = spread_key (tl_y el) (upd_y updates),
      tl_fontSize = spread_key (tl_fontSize el) (upd_fontSize updates),
      tl_fontFamily = spread_key (tl_fontFamily el) (upd_fontFamily updates),
      tl_color = spread_key (tl_color el) (upd_color updates),
      tl_spacing = spread_key (tl_spacing el) (upd_spacing updates),
      tl_rotation = spread_key (tl_rotation el) (upd_rotation updates),
      tl_fontWeight = spread_key (tl_fontWeight el) (upd_fontWeight updates),
      tl_align = spread_key (tl_align el) (upd_align updates)\<rparr>"

text \<open>\<^verbatim>\<open>visuals.logoSettings\<close>: container, icon settings and the text layers.\<close>

record LogoSettings =
  bgColor :: string
  shape :: shape
  width :: real
  height :: real
  borderRadius :: real
  iconColor :: string
  iconSize :: real
  tintIcon :: bool
  textElements :: "TextLayer list"

text \<open>
  The argument \<^verbatim>\<open>newSettings: any\<close> of \<^verbatim>\<open>updateLogoSettings\<close>: an object with some of
  the keys of the settings.
\<close>

record SettingsUpdates =
  new_bgColor :: "string option"
  new_shape :: "shape option"
  new_width :: "real option"
  new_height :: "real option"
  new_borderRadius :: "real option"
  new_iconColor :: "string option"
  new_iconSize :: "real option"
  new_tintIcon :: "bool option"
  new_textElements :: "TextLayer list option"

definition no_settings :: SettingsUpdates where
  "no_settings =
     \<lparr>new_bgColor = None, new_shape = None, new_width = None, new_height = None,
      new_borderRadius = None, new_iconColor = None, new_iconSize = None,
      new_tintIcon = None, new_textElements = None\<rparr>"

text \<open>\<^verbatim>\<open>{ ...logoSettings, ...newSettings }\<close>\<close>

definition spread_LogoSettings :: "LogoSettings \<Rightarrow> SettingsUpdates \<Rightarrow> LogoSettings" where
  "spread_LogoSettings ls newSettings =
     \<lparr>bgColor = spread_key (bgColor ls) (new_bgColor newSettings),
      shape = spread_key (shape ls) (new_shape newSettings),
      width = spread_key (width ls) (new_width newSettings),
      height = spread_key (height ls) (new_height newSettings),
      borderRadius = spread_key (borderRadius ls) (new_borderRadius newSettings),
      iconColor = spread_key (iconColor ls) (new_iconColor newSettings),
      iconSize = spread_key (iconSize ls) (new_iconSize newSettings),
      tintIcon = spread_key (tintIcon ls) (new_tintIcon newSettings),
      textElements = spread_key (textElements ls) (new_textElements newSettings)\<rparr>"

section \<open>The editor state and its handlers\<close>

text \<open>
  The state of \<^verbatim>\<open>ProjectEditor\<close> that the composer reads and writes:
  \<^verbatim>\<open>data.visuals.logoSettings\<close> (optional), the first colour of the current palette
  (read only, for the default settings), \<^verbatim>\<open>selectedElementId\<close>, and the two refs
  \<^verbatim>\<open>isDragging\<close> and \<^verbatim>\<open>dragStart\<close>. Every handler is a function from the state it
  sees to the state after it. The handlers of this section run on the state they were
  rendered from; handlers that are closures of an earlier render follow in the next one.
\<close>

record editor =
  stored_logoSettings :: "LogoSettings option"
  palette_color0 :: string
  selectedElementId :: "string option"
  isDragging :: bool
  dragStart :: "real \<times> real"

text \<open>
  \<^verbatim>\<open>const logoSettings = data.visuals.logoSettings || { bgColor: 'transparent', ... }\<close>
\<close>

definition logoSettings :: "editor \<Rightarrow> LogoSettings" where
  "logoSettings st =
     (case stored_logoSettings st of
        Some ls \<Rightarrow> ls
      | None \<Rightarrow>
          \<lparr>bgColor = ''transparent'', shape = ShapeNone, width = 400, height = 400,
           borderRadius = 0, iconColor = palette_color0 st, iconSize = 150,
           tintIcon = False, textElements = []\<rparr>)"

definition updateLogoSettings :: "SettingsUpdates \<Rightarrow> editor \<Rightarrow> editor" where
  "updateLogoSettings newSettings st =
     st\<lparr>stored_logoSettings := Some (spread_LogoSettings (logoSettings st) newSettings)\<rparr>"

text \<open>
  JavaScript truthiness of \<^verbatim>\<open>string | null\<close>: \<^verbatim>\<open>null\<close> and the empty string are falsy.
\<close>

definition truthy :: "string option \<Rightarrow> bool" where
  "truthy s = (case s of None \<Rightarrow> False | Some v \<Rightarrow> v \<noteq> [])"

text \<open>\<^verbatim>\<open>textElements.map(el => el.id === selectedElementId ? { ...el, ...updates } : el)\<close>\<close>

definition updateSelectedText :: "TextLayerUpdates \<Rightarrow> editor \<Rightarrow> editor" where
  "updateSelectedText updates st =
     (if \<not> truthy (selectedElementId st) then st
      else
        let updatedElements =
              map (\<lambda>el. if Some (tl_id el) = selectedElementId st
                         then spread_TextLayer el updates else el)
                (textElements (logoSettings st))
        in updateLogoSettings (no_settings\<lparr>new_textElements := Some updatedElements\<rparr>) st)"

definition deleteSelectedText :: "editor \<Rightarrow> editor" where
  "deleteSelectedText st =
     (if \<not> truthy (selectedElementId st) then st
      else
        let updatedElements =
              filter (\<lambda>el. Some (tl_id el) \<noteq> selectedElementId st)
                (textElements (logoSettings st))
        in (updateLogoSettings (no_settings\<lparr>new_textElements := Some updatedElements\<rparr>) st)
             \<lparr>selectedElementId := None\<rparr>)"

text \<open>
  The event of \<^verbatim>\<open>handleMouseDown\<close> and \<^verbatim>\<open>handleMouseMove\<close> is its pointer position
  \<open>(clientX, clientY)\<close>.
\<close>

definition handleMouseDown :: "real \<times> real \<Rightarrow> string \<Rightarrow> editor \<Rightarrow> editor" where
  "handleMouseDown e i st =
     st\<lparr>selectedElementId := Some i, isDragging := True, dragStart := e\<rparr>"

definition handleMouseMove :: "real \<times> real \<Rightarrow> editor \<Rightarrow> editor" where
  "handleMouseMove e st =
     (if \<not> isDragging st \<or> \<not> truthy (selectedElementId st) then st
      else
        let dx = fst e - fst (dragStart st);
            dy = snd e - snd (dragStart st);
            element = find (\<lambda>el. Some (tl_id el) = selectedElementId st)
                        (textElements (logoSettings st));
            st' = (case element of
                     Some el \<Rightarrow>
                       updateSelectedText
                         (no_updates\<lparr>upd_x := Some (tl_x el + dx), upd_y := Some (tl_y el + dy)\<rparr>)
                         st
                   | None \<Rightarrow> st)
        in st'\<lparr>dragStart := e\<rparr>)"

definition handleMouseUp :: "editor \<Rightarrow> editor" where
  "handleMouseUp st = st\<lparr>isDragging := False\<rparr>"

text \<open>
  The spacing slider, \<^verbatim>\<open><input type="range" min="-5" max="50" ...>\<close>. The value of a
  range control is kept within its bounds by the host: a number below the minimum becomes
  the minimum, a number above the maximum the maximum, and a number in between the
  nearest step from the minimum (the step is 1), the higher one of two equally near.
\<close>

definition range_value :: "real \<Rightarrow> real \<Rightarrow> real \<Rightarrow> real" where
  "range_value lo hi v =
     (if v < lo then lo else if hi < v then hi else lo + of_int \<lfloor>v - lo + 1 / 2\<rfloor>)"

definition spacing_min :: real where
  "spacing_min = - 5"

definition spacing_max :: real where
  "spacing_max = 50"

text \<open>
  Its \<^verbatim>\<open>onChange={(e) => updateSelectedText({ spacing: Number(e.target.value) })}\<close>, for
  the number the user tries to set the control to.
\<close>

definition spacing_onChange :: "real \<Rightarrow> editor \<Rightarrow> editor" where
  "spacing_onChange attempted st =
     updateSelectedText
       (no_updates\<lparr>upd_spacing := Some (range_value spacing_min spacing_max attempted)\<rparr>) st"

text \<open>The canvas \<^verbatim>\<open>onClick={() => setSelectedElementId(null)}\<close>.\<close>

definition canvas_onClick :: "editor \<Rightarrow> editor" where
  "canvas_onClick st = st\<lparr>selectedElementId := None\<rparr>"

text \<open>
  The \<^verbatim>\<open>onClick\<close> of the shape buttons, for the button of shape \<open>s\<close>.
\<close>

definition shape_onClick :: "shape \<Rightarrow> editor \<Rightarrow> editor" where
  "shape_onClick s st =
     (let updates = no_settings\<lparr>new_shape := Some s\<rparr>;
          updates' =
            (if s = Rectangle then updates\<lparr>new_width := Some 500, new_height := Some 300\<rparr>
             else if s = Oval then updates\<lparr>new_width := Some 500, new_height := Some 300\<rparr>
             else updates\<lparr>new_width := Some 400, new_height := Some 400\<rparr>)
      in updateLogoSettings updates' st)"

section \<open>Selection, dragging and their event sequences\<close>

text \<open>
  A text layer is drawn as selected when \<^verbatim>\<open>selectedElementId === el.id\<close>. The ids drawn
  as selected, without repetition:
\<close>

definition selectedIds :: "editor \<Rightarrow> string list" where
  "selectedIds st =
     remdups (map tl_id
       (filter (\<lambda>el. selectedElementId st = Some (tl_id el)) (textElements (logoSettings st))))"

text \<open>
  The selection events: pointer-down on the text layer with a given id, a click that
  reaches the canvas background, and the Delete button.
\<close>

datatype selection_event =
    PointerDown "real \<times> real" string
  | BackgroundClick
  | DeleteSelected

fun selection_step :: "selection_event \<Rightarrow> editor \<Rightarrow> editor" where
  "selection_step (PointerDown e i) st = handleMouseDown e i st"
| "selection_step BackgroundClick st = canvas_onClick st"
| "selection_step DeleteSelected st = deleteSelectedText st"

text \<open>The states after each event of a sequence, in order.\<close>

fun states_after :: "editor \<Rightarrow> selection_event list \<Rightarrow> editor list" where
  "states_after st [] = []"
| "states_after st (ev # evs) = selection_step ev st # states_after (selection_step ev st) evs"

text \<open>
  The layer a pointer-move drags: \<^verbatim>\<open>textElements.find(el => el.id === selectedElementId)\<close>.
\<close>

definition dragged_layer :: "editor \<Rightarrow> TextLayer option" where
  "dragged_layer st =
     find (\<lambda>el. Some (tl_id el) = selectedElementId st) (textElements (logoSettings st))"

text \<open>
  A handler is a closure of the render that created it. It reads \<^verbatim>\<open>data\<close>, hence
  \<^verbatim>\<open>logoSettings\<close>, and \<^verbatim>\<open>selectedElementId\<close> as they were at that render, and
  \<^verbatim>\<open>setData({ ...data, ... })\<close> writes a new \<^verbatim>\<open>data\<close> built from the render's one; the
  refs \<^verbatim>\<open>isDragging\<close> and \<^verbatim>\<open>dragStart\<close> are read and written in place. The handlers
  above run on the state they were rendered from. The update of the settings, the update
  of the selected text and the pointer-move follow once more with the state \<open>r\<close> of the
  render apart from the current state.
\<close>

definition updateLogoSettings_closure :: "editor \<Rightarrow> SettingsUpdates \<Rightarrow> editor \<Rightarrow> editor" where
  "updateLogoSettings_closure r newSettings st =
     st\<lparr>stored_logoSettings := Some (spread_LogoSettings (logoSettings r) newSettings),
        palette_color0 := palette_color0 r\<rparr>"

definition updateSelectedText_closure :: "editor \<Rightarrow> TextLayerUpdates \<Rightarrow> editor \<Rightarrow> editor" where
  "updateSelectedText_closure r updates st =
     (if \<not> truthy (selectedElementId r) then st
      else
        let updatedElements =
              map (\<lambda>el. if Some (tl_id el) = selectedElementId r
                         then spread_TextLayer el updates else el)
                (textElements (logoSettings r))
        in updateLogoSettings_closure r (no_settings\<lparr>new_textElements := Some updatedElements\<rparr>) st)"

definition handleMouseMove_closure :: "editor \<Rightarrow> real \<times> real \<Rightarrow> editor \<Rightarrow> editor" where
  "handleMouseMove_closure r e st =
     (if \<not> isDragging st \<or> \<not> truthy (selectedElementId r) then st
      else
        let dx = fst e - fst (dragStart st);
            dy = snd e - snd (dragStart st);
            element = find (\<lambda>el. Some (tl_id el) = selectedElementId r)
                        (textElements (logoSettings r));
            st' = (case element of
                     Some el \<Rightarrow>
                       updateSelectedText_closure r
                         (no_updates\<lparr>upd_x := Some (tl_x el + dx), upd_y := Some (tl_y el + dy)\<rparr>)
                         st
                   | None \<Rightarrow> st)
        in st'\<lparr>dragStart := e\<rparr>)"

text \<open>
  What happens during a drag: a pointer-move, given by its delta (the event is at the
  last recorded pointer position plus the delta), or a render of the component, after
  which the handlers are closures of the current state. A run starts from the state of the
  last render and the current state.
\<close>

datatype drag_event = Move "real \<times> real" | Render

fun drag_events :: "drag_event list \<Rightarrow> editor \<times> editor \<Rightarrow> editor \<times> editor" where
  "drag_events [] (r, st) = (r, st)"
| "drag_events (Move d # evs) (r, st) =
     drag_events evs
       (r, handleMouseMove_closure r (fst (dragStart st) + fst d, snd (dragStart st) + snd d) st)"
| "drag_events (Render # evs) (r, st) = drag_events evs (st, st)"

text \<open>Pointer-moves with a render after each one.\<close>

definition rendered_moves :: "(real \<times> real) list \<Rightarrow> drag_event list" where
  "rendered_moves ds = concat (map (\<lambda>d. [Move d, Render]) ds)"

section \<open>Style of the container\<close>

text \<open>
  The inline style of the container \<^verbatim>\<open>div\<close>. A CSS value is kept structured instead of
  printed: \<open>Percent 50\<close> is \<^verbatim>\<open>'50%'\<close>, \<open>Px n\<close> is \<^verbatim>\<open>`${n}px`\<close>, and a polygon is the list
  of its points, each a pair of percentages of the box (x from the left, y from the top).
\<close>

datatype css_length = Percent real | Px real

datatype css_clipPath = ClipNone | Polygon "(real \<times> real) list"

definition borderRadius_style :: "LogoSettings \<Rightarrow> css_length" where
  "borderRadius_style ls =
     (if shape ls = Circle then Percent 50
      else if shape ls = Oval then Percent 50
      else if shape ls = Rounded then Px 40
      else if shape ls = Square \<or> shape ls = Rectangle then Px 0
      else Px (borderRadius ls))"

definition clipPath_style :: "LogoSettings \<Rightarrow> css_clipPath" where
  "clipPath_style ls =
     (if shape ls = Triangle then Polygon [(50, 0), (0, 100), (100, 100)]
      else if shape ls = Hexagon
        then Polygon [(25, 0), (75, 0), (100, 50), (75, 100), (25, 100), (0, 50)]
      else ClipNone)"

text \<open>
  The table as the specification words it, by cases on the shape: each shape has one
  entry, a border radius or a clip polygon. It is what the two conditionals above are
  compared with.
\<close>

datatype style_entry = BorderRadius css_length | ClipPath css_clipPath

fun spec_style_table :: "shape \<Rightarrow> real \<Rightarrow> style_entry" where
  "spec_style_table Circle cornerRadius = BorderRadius (Percent 50)"
| "spec_style_table Oval cornerRadius = BorderRadius (Percent 50)"
| "spec_style_table Rounded cornerRadius = BorderRadius (Px 40)"
| "spec_style_table Square cornerRadius = BorderRadius (Px 0)"
| "spec_style_table Rectangle cornerRadius = BorderRadius (Px 0)"
| "spec_style_table Triangle cornerRadius = ClipPath (Polygon [(50, 0), (0, 100), (100, 100)])"
| "spec_style_table Hexagon cornerRadius =
     ClipPath (Polygon [(25, 0), (75, 0), (100, 50), (75, 100), (25, 100), (0, 50)])"
| "spec_style_table ShapeNone cornerRadius = BorderRadius (Px cornerRadius)"

text \<open>Mirror images of a point in the vertical and in the horizontal axis of the box.\<close>

definition mirror_x :: "real \<times> real \<Rightarrow> real \<times> real" where
  "mirror_x p = (100 - fst p, snd p)"

definition mirror_y :: "real \<times> real \<Rightarrow> real \<times> real" where
  "mirror_y p = (fst p, 100 - snd p)"

section \<open>Document export\<close>

text \<open>
  The document is the sequence of calls \<^verbatim>\<open>exportToPDF\<close> makes on its \<^verbatim>\<open>jsPDF\<close> object:
  the library draws on the current page, and \<^verbatim>\<open>addPage\<close> starts the next one. What the
  library itself computes is a parameter of the model: the page width, the wrapping of a
  text at the current font size and style, whether \<^verbatim>\<open>addImage\<close> throws on an image, and
  whether \<^verbatim>\<open>setFillColor\<close> throws on a colour string.
\<close>

datatype font_style = Normal | Bold

datatype jsPDF_call =
    SetFontSize real
  | SetFont string font_style
  | SetTextColor real real real
  | DocText "string list" real real "string option"
  | AddImage string string real real real real
  | AddPage
  | SetFillColor string
  | Rect real real real real string

record jsPDF_lib =
  pageWidth :: real
  splitTextToSize :: "real \<Rightarrow> font_style \<Rightarrow> string \<Rightarrow> real \<Rightarrow> string list"
  addImage_throws :: "string \<Rightarrow> bool"
  setFillColor_throws :: "string \<Rightarrow> bool"

text \<open>The state the export threads: the calls made so far and the cursor \<^verbatim>\<open>y\<close>.\<close>

record export_state =
  doc :: "jsPDF_call list"
  cursor :: real

definition margin :: real where
  "margin = 20"

definition contentWidth :: "jsPDF_lib \<Rightarrow> real" where
  "contentWidth lib = pageWidth lib - margin * 2"

definition addText ::
  "jsPDF_lib \<Rightarrow> string \<Rightarrow> real \<Rightarrow> font_style \<Rightarrow> real \<times> real \<times> real \<Rightarrow> export_state \<Rightarrow> export_state"
where
  "addText lib txt fontsize style color st =
     (let st1 = st\<lparr>doc := doc st @
                   [SetFontSize fontsize, SetFont ''helvetica'' style,
                    SetTextColor (fst color) (fst (snd color)) (snd (snd color))]\<rparr>;
          lines = splitTextToSize lib fontsize style txt (contentWidth lib);
          st2 = (if cursor st1 + real (length lines) * fontsize * 0.4 > 280
                 then st1\<lparr>doc := doc st1 @ [AddPage], cursor := 20\<rparr>
                 else st1);
          st3 = st2\<lparr>doc := doc st2 @ [DocText lines margin (cursor st2) None]\<rparr>
      in st3\<lparr>cursor := cursor st3 + (real (length lines) * fontsize * 0.4 + 6)\<rparr>)"

text \<open>The default colour of \<^verbatim>\<open>addText\<close>, and the heading colour.\<close>

definition dark :: "real \<times> real \<times> real" where
  "dark = (40, 40, 40)"

definition indigo :: "real \<times> real \<times> real" where
  "indigo = (79, 70, 229)"

definition skip :: "real \<Rightarrow> export_state \<Rightarrow> export_state" where
  "skip dy st = st\<lparr>cursor := cursor st + dy\<rparr>"

definition emit :: "jsPDF_call list \<Rightarrow> export_state \<Rightarrow> export_state" where
  "emit calls st = st\<lparr>doc := doc st @ calls\<rparr>"

text \<open>
  The slice of a project and of its generated data that the export reads. The palette
  index, a number that is only used to index the array of palettes, is an integer.
\<close>

record ColorPalette =
  palette_name :: string
  colors :: "string list"
  palette_style :: string

record BrandGeneratedData =
  story_vision :: string
  story_mission :: string
  story_positioning :: string
  marketing_shortDescription :: string
  palettes :: "ColorPalette list"
  selectedPaletteIndex :: int
  fonts_logo :: string
  fonts_heading :: string
  fonts_body :: string
  logoIconUrl :: "string option"

record BrandProject =
  name :: string
  industry :: string
  tone :: string
  generatedData :: "BrandGeneratedData option"

text \<open>\<^verbatim>\<open>a || b\<close> on strings.\<close>

definition or_string :: "string \<Rightarrow> string \<Rightarrow> string" where
  "or_string a b = (if a = [] then b else a)"

text \<open>
  Reading an array at an index: an index outside the array reads \<^verbatim>\<open>undefined\<close>.
\<close>

definition index_opt :: "'a list \<Rightarrow> int \<Rightarrow> 'a option" where
  "index_opt xs i = (if 0 \<le> i \<and> i < int (length xs) then Some (xs ! nat i) else None)"

text \<open>\<^verbatim>\<open>a || b\<close> on numbers: zero is falsy.\<close>

definition or_number :: "int \<Rightarrow> int \<Rightarrow> int" where
  "or_number a b = (if a = 0 then b else a)"

text \<open>\<^verbatim>\<open>d.visuals.palettes[d.visuals.selectedPaletteIndex || 0]\<close>\<close>

definition selected_palette :: "BrandGeneratedData \<Rightarrow> ColorPalette option" where
  "selected_palette d = index_opt (palettes d) (or_number (selectedPaletteIndex d) 0)"

text \<open>
  \<^verbatim>\<open>name.replace(/\s+/g, '_')\<close>: every maximal run of whitespace becomes one underscore.
  The class \<^verbatim>\<open>\s\<close> has six ASCII characters (space, tab, line feed, vertical tab, form
  feed, carriage return) and the characters U+00A0, U+1680, U+2000 to U+200A, U+2028,
  U+2029, U+202F, U+205F, U+3000 and U+FEFF, which are two or three bytes in UTF-8.
\<close>

definition ascii_space :: "char \<Rightarrow> bool" where
  "ascii_space c = (c \<in> set [CHR '' '', CHR 0x09, CHR 0x0A, CHR 0x0B, CHR 0x0C, CHR 0x0D])"

definition unicode_spaces :: "string list" where
  "unicode_spaces =
     [[CHR 0xC2, CHR 0xA0], [CHR 0xE1, CHR 0x9A, CHR 0x80],
      [CHR 0xE2, CHR 0x80, CHR 0x80], [CHR 0xE2, CHR 0x80, CHR 0x81],
      [CHR 0xE2, CHR 0x80, CHR 0x82], [CHR 0xE2, CHR 0x80, CHR 0x83],
      [CHR 0xE2, CHR 0x80, CHR 0x84], [CHR 0xE2, CHR 0x80, CHR 0x85],
      [CHR 0xE2, CHR 0x80, CHR 0x86], [CHR 0xE2, CHR 0x80, CHR 0x87],
      [CHR 0xE2, CHR 0x80, CHR 0x88], [CHR 0xE2, CHR 0x80, CHR 0x89],
      [CHR 0xE2, CHR 0x80, CHR 0x8A], [CHR 0xE2, CHR 0x80, CHR 0xA8],
      [CHR 0xE2, CHR 0x80, CHR 0xA9], [CHR 0xE2, CHR 0x80, CHR 0xAF],
      [CHR 0xE2, CHR 0x81, CHR 0x9F], [CHR 0xE3, CHR 0x80, CHR 0x80],
      [CHR 0xEF, CHR 0xBB, CHR 0xBF]]"

text \<open>The number of bytes of the whitespace character a string starts with, 0 if none.\<close>

definition space_length :: "string \<Rightarrow> nat" where
  "space_length s =
     (case s of
        [] \<Rightarrow> 0
      | c # cs \<Rightarrow>
          if ascii_space c then 1
          else if take 2 s \<in> set unicode_spaces then 2
          else if take 3 s \<in> set unicode_spaces then 3
          else 0)"

text \<open>The flag says that the previous character was whitespace.\<close>

fun replace_ws :: "bool \<Rightarrow> string \<Rightarrow> string" where
  "replace_ws in_run [] = []"
| "replace_ws in_run (c # cs) =
     (if space_length (c # cs) = 0 then c # replace_ws False cs
      else if in_run then replace_ws True (drop (space_length (c # cs) - 1) cs)
      else CHR ''_'' # replace_ws True (drop (space_length (c # cs) - 1) cs))"

datatype js_error = TypeError | AddImageError | InvalidColor

text \<open>
  The swatches: \<^verbatim>\<open>palette.colors.forEach\<close>, with \<^verbatim>\<open>xOffset\<close> advancing by 35. The
  first colour on which \<^verbatim>\<open>setFillColor\<close> throws ends the loop with that exception.
\<close>

fun swatches :: "jsPDF_lib \<Rightarrow> real \<Rightarrow> real \<Rightarrow> string list \<Rightarrow> js_error + jsPDF_call list" where
  "swatches lib xOffset y [] = Inr []"
| "swatches lib xOffset y (c # cs) =
     (if setFillColor_throws lib c then Inl InvalidColor
      else
        (case swatches lib (xOffset + 35) y cs of
           Inl e \<Rightarrow> Inl e
         | Inr calls \<Rightarrow>
             Inr ([SetFillColor c, Rect xOffset y 30 30 ''F'', SetFontSize 10,
                   SetTextColor 60 60 60, DocText [c] xOffset (y + 36) None] @ calls)))"

text \<open>
  How a call of \<^verbatim>\<open>exportToPDF\<close> ends: it returns before doing anything, an exception
  leaves it, or it reaches \<^verbatim>\<open>doc.save\<close>. The last two carry what \<^verbatim>\<open>console.error\<close> has
  printed; the last one the file name and the calls that built the document.
\<close>

datatype outcome =
    ReturnedSilently
  | Uncaught js_error "js_error list"
  | Saved string "jsPDF_call list" "js_error list"

text \<open>
  The icon on the cover: the calls added to the document and the lines printed by
  \<^verbatim>\<open>console.error\<close>.
\<close>

definition cover_icon :: "jsPDF_lib \<Rightarrow> BrandGeneratedData \<Rightarrow> jsPDF_call list \<times> js_error list" where
  "cover_icon lib d =
     (case logoIconUrl d of
        None \<Rightarrow> ([], [])
      | Some url \<Rightarrow>
          if url = [] then ([], [])
          else if addImage_throws lib url then ([], [AddImageError])
          else ([AddImage url ''PNG'' (pageWidth lib / 2 - 40) 120 80 80], []))"

text \<open>Page 1: the project name, the icon, and the footer line.\<close>

definition cover_title :: "jsPDF_lib \<Rightarrow> BrandProject \<Rightarrow> jsPDF_call list" where
  "cover_title lib project =
     [SetFontSize 50, SetTextColor 79 70 229,
      DocText [or_string (name project) ''Brand Name''] (pageWidth lib / 2) 100 (Some ''center'')]"

definition cover_footer :: "jsPDF_lib \<Rightarrow> jsPDF_call list" where
  "cover_footer lib =
     [SetFontSize 12, SetTextColor 150 150 150,
      DocText [''BrandForge AI Generated Identity''] (pageWidth lib / 2) 280 (Some ''center'')]"

definition cover_page :: "jsPDF_lib \<Rightarrow> BrandProject \<Rightarrow> BrandGeneratedData \<Rightarrow> jsPDF_call list" where
  "cover_page lib project d = cover_title lib project @ fst (cover_icon lib d) @ cover_footer lib"

text \<open>Statements in the order of the source: each one runs on the state the previous left.\<close>

definition run_steps :: "(export_state \<Rightarrow> export_state) list \<Rightarrow> export_state \<Rightarrow> export_state" where
  "run_steps steps st = fold (\<lambda>step s. step s) steps st"

text \<open>\<^verbatim>\<open>doc.addPage(); y = 20;\<close>\<close>

definition newPage :: "export_state \<Rightarrow> export_state" where
  "newPage st = st\<lparr>doc := doc st @ [AddPage], cursor := 20\<rparr>"

text \<open>
  The strategy page and the start of the visual identity page, up to the heading of the
  colour palette (the lookup of the selected palette comes next).
\<close>

definition strategy_pages ::
  "jsPDF_lib \<Rightarrow> BrandProject \<Rightarrow> BrandGeneratedData \<Rightarrow> export_state \<Rightarrow> export_state"
where
  "strategy_pages lib project d =
     run_steps
       [newPage,
        addText lib ''Strategic Overview'' 18 Bold indigo,
        skip 5,
        addText lib (''Industry: '' @ industry project) 12 Normal dark,
        addText lib (''Tone: '' @ tone project) 12 Normal dark,
        skip 5,
        addText lib ''Vision & Mission'' 14 Bold dark,
        addText lib (story_vision d) 11 Normal dark,
        skip 2,
        addText lib (story_mission d) 11 Normal dark,
        skip 10,
        addText lib ''Strategic Positioning'' 14 Bold dark,
        addText lib (story_positioning d) 11 Normal dark,
        newPage,
        addText lib ''Visual Identity System'' 18 Bold indigo,
        skip 5,
        addText lib ''Color Palette'' 14 Bold dark]"

text \<open>From behind the swatches to the end of the document.\<close>

definition identity_page :: "jsPDF_lib \<Rightarrow> BrandGeneratedData \<Rightarrow> export_state \<Rightarrow> export_state" where
  "identity_page lib d =
     run_steps
       [skip 50,
        addText lib ''Typography'' 14 Bold dark,
        addText lib (''Logo Font: '' @ fonts_logo d) 11 Normal dark,
        addText lib (''Heading Font: '' @ fonts_heading d) 11 Normal dark,
        addText lib (''Body Font: '' @ fonts_body d) 11 Normal dark,
        skip 10,
        addText lib ''Marketing Content'' 14 Bold dark,
        addText lib (marketing_shortDescription d) 11 Normal dark]"

definition exportToPDF :: "jsPDF_lib \<Rightarrow> BrandProject \<Rightarrow> outcome" where
  "exportToPDF lib project =
     (case generatedData project of
        None \<Rightarrow> ReturnedSilently
      | Some d \<Rightarrow>
          let st1 = strategy_pages lib project d \<lparr>doc = cover_page lib project d, cursor = 20\<rparr>;
              console = snd (cover_icon lib d)
          in (case selected_palette d of
                None \<Rightarrow> Uncaught TypeError console
              | Some palette \<Rightarrow>
                  (case swatches lib margin (cursor st1) (colors palette) of
                     Inl e \<Rightarrow> Uncaught e console
                   | Inr calls \<Rightarrow>
                       let st2 = identity_page lib d (emit calls st1)
                       in Saved (replace_ws False (name project) @ ''_BrandKit.pdf'')
                            (doc st2) console)))"

text \<open>What can be observed of an outcome.\<close>

fun is_saved :: "outcome \<Rightarrow> bool" where
  "is_saved (Saved file calls console) = True"
| "is_saved other = False"

fun console_of :: "outcome \<Rightarrow> js_error list" where
  "console_of (Saved file calls console) = console"
| "console_of (Uncaught e console) = console"
| "console_of ReturnedSilently = []"

fun is_thrown :: "outcome \<Rightarrow> bool" where
  "is_thrown (Uncaught e console) = True"
| "is_thrown other = False"

text \<open>The same project without an icon.\<close>

definition without_icon :: "BrandProject \<Rightarrow> BrandProject" where
  "without_icon project =
     project\<lparr>generatedData := map_option (\<lambda>d. d\<lparr>logoIconUrl := None\<rparr>) (generatedData project)\<rparr>"

text \<open>
  A failure has been logged when \<^verbatim>\<open>console.error\<close> has printed something.
\<close>

definition failure_logged :: "outcome \<Rightarrow> bool" where
  "failure_logged out = (console_of out \<noteq> [])"

text \<open>
  The two ways an icon can be unusable: there is none (the URL is absent or empty), or
  \<^verbatim>\<open>addImage\<close> throws on it.
\<close>

definition icon_missing :: "BrandGeneratedData \<Rightarrow> bool" where
  "icon_missing d = (\<not> truthy (logoIconUrl d))"

definition icon_fails_to_decode :: "jsPDF_lib \<Rightarrow> BrandGeneratedData \<Rightarrow> bool" where
  "icon_fails_to_decode lib d =
     (case logoIconUrl d of None \<Rightarrow> False | Some url \<Rightarrow> url \<noteq> [] \<and> addImage_throws lib url)"

text \<open>
  What a document shows: the texts drawn, in order (each one the list of its lines), the
  images drawn, and the colours of the filled rectangles.
\<close>

fun drawn_texts :: "jsPDF_call list \<Rightarrow> string list list" where
  "drawn_texts [] = []"
| "drawn_texts (DocText lines x y a # calls) = lines # drawn_texts calls"
| "drawn_texts (c # calls) = drawn_texts calls"

fun drawn_images :: "jsPDF_call list \<Rightarrow> string list" where
  "drawn_images [] = []"
| "drawn_images (AddImage url format x y w h # calls) = url # drawn_images calls"
| "drawn_images (c # calls) = drawn_images calls"

fun filled_colors :: "jsPDF_call list \<Rightarrow> string list" where
  "filled_colors [] = []"
| "filled_colors (SetFillColor c # calls) = c # filled_colors calls"
| "filled_colors (c # calls) = filled_colors calls"

section \<open>Concrete inputs\<close>

text \<open>A text layer as \<^verbatim>\<open>addTextElement\<close> creates it, placed at (100, 100).\<close>

definition layer0 :: TextLayer where
  "layer0 =
     \<lparr>tl_id = ''1730000000000'', tl_text = ''ACME'', tl_x = 100, tl_y = 100, tl_fontSize = 32,
      tl_fontFamily = ''Montserrat'', tl_color = ''#4f46e5'', tl_spacing = 0, tl_rotation = 0,
      tl_fontWeight = ''bold'', tl_align = AlignCenter\<rparr>"

definition layer1 :: TextLayer where
  "layer1 = layer0\<lparr>tl_id := ''1730000000777'', tl_text := ''Tagline'', tl_y := 180\<rparr>"

definition settings0 :: LogoSettings where
  "settings0 =
     \<lparr>bgColor = ''transparent'', shape = Rectangle, width = 520, height = 310, borderRadius = 12,
      iconColor = ''#4f46e5'', iconSize = 150, tintIcon = False, textElements = [layer0, layer1]\<rparr>"

text \<open>An editor in which \<open>layer0\<close> is selected and being dragged.\<close>

definition editor0 :: editor where
  "editor0 =
     \<lparr>stored_logoSettings = Some settings0, palette_color0 = ''#4f46e5'',
      selectedElementId = Some ''1730000000000'', isDragging = True, dragStart = (10, 10)\<rparr>"

text \<open>The same editor with a selection that names a layer no longer in the list.\<close>

definition editor_stale :: editor where
  "editor_stale = editor0\<lparr>selectedElementId := Some ''1720000000000'', isDragging := False\<rparr>"

text \<open>A library that wraps nothing, rejects every image and reads every colour.\<close>

definition lib0 :: jsPDF_lib where
  "lib0 =
     \<lparr>pageWidth = 210, splitTextToSize = (\<lambda>fontsize style t maxWidth. [t]),
      addImage_throws = (\<lambda>url. True), setFillColor_throws = (\<lambda>c. False)\<rparr>"

definition palette0 :: ColorPalette where
  "palette0 =
     \<lparr>palette_name = ''Indigo'', colors = [''#4f46e5'', ''#ffffff''], palette_style = ''modern''\<rparr>"

definition data0 :: BrandGeneratedData where
  "data0 =
     \<lparr>story_vision = ''Vision'', story_mission = ''Mission'', story_positioning = ''Positioning'',
      marketing_shortDescription = ''Short'', palettes = [palette0], selectedPaletteIndex = 0,
      fonts_logo = ''Montserrat'', fonts_heading = ''Poppins'', fonts_body = ''Lato'',
      logoIconUrl = Some ''data:image/png;base64,AAAA''\<rparr>"

definition project0 :: BrandProject where
  "project0 =
     \<lparr>name = ''Acme Co'', industry = ''Tools'', tone = ''Bold'', generatedData = Some data0\<rparr>"

definition project_no_data :: BrandProject where
  "project_no_data = project0\<lparr>generatedData := None\<rparr>"

section \<open>Facts about the handlers\<close>

lemma logoSettings_updateLogoSettings:
  "logoSettings (updateLogoSettings newSettings st) =
     spread_LogoSettings (logoSettings st) newSettings"
  by (simp add: updateLogoSettings_def logoSettings_def)

lemma logoSettings_frame:
  "logoSettings (st\<lparr>dragStart := e\<rparr>) = logoSettings st"
  "logoSettings (st\<lparr>selectedElementId := sel\<rparr>) = logoSettings st"
  "logoSettings (st\<lparr>isDragging := b\<rparr>) = logoSettings st"
  by (simp_all add: logoSettings_def split: option.split)

lemma spread_only_textElements:
  "spread_LogoSettings ls (no_settings\<lparr>new_textElements := Some xs\<rparr>) = ls\<lparr>textElements := xs\<rparr>"
  by (simp add: spread_LogoSettings_def no_settings_def spread_key_def)

lemma fields_updateLogoSettings:
  "selectedElementId (updateLogoSettings n st) = selectedElementId st"
  "isDragging (updateLogoSettings n st) = isDragging st"
  "dragStart (updateLogoSettings n st) = dragStart st"
  "palette_color0 (updateLogoSettings n st) = palette_color0 st"
  by (simp_all add: updateLogoSettings_def)

lemma textElements_updateSelectedText:
  "textElements (logoSettings (updateSelectedText updates st)) =
     (if truthy (selectedElementId st)
      then map (\<lambda>el. if Some (tl_id el) = selectedElementId st
                      then spread_TextLayer el updates else el)
             (textElements (logoSettings st))
      else textElements (logoSettings st))"
  by (simp add: updateSelectedText_def Let_def logoSettings_updateLogoSettings
      spread_only_textElements)

lemma logoSettings_updateSelectedText:
  "logoSettings (updateSelectedText updates st) =
     (logoSettings st)\<lparr>textElements := textElements (logoSettings (updateSelectedText updates st))\<rparr>"
  by (simp add: updateSelectedText_def Let_def logoSettings_updateLogoSettings
      spread_only_textElements)

lemma fields_updateSelectedText:
  "selectedElementId (updateSelectedText u st) = selectedElementId st"
  "isDragging (updateSelectedText u st) = isDragging st"
  "dragStart (updateSelectedText u st) = dragStart st"
  "palette_color0 (updateSelectedText u st) = palette_color0 st"
  by (simp_all add: updateSelectedText_def Let_def fields_updateLogoSettings)

lemma map_unmatched:
  "\<forall>el \<in> set xs. \<not> P el \<Longrightarrow> map (\<lambda>el. if P el then f el else el) xs = xs"
  by (induction xs) auto

lemma find_map_update:
  assumes "\<And>el. P el \<Longrightarrow> P (f el)"
  shows "find P (map (\<lambda>el. if P el then f el else el) xs) = map_option f (find P xs)"
  using assms by (induction xs) auto

lemma spread_xy:
  "spread_TextLayer el (no_updates\<lparr>upd_x := Some a, upd_y := Some b\<rparr>) = el\<lparr>tl_x := a, tl_y := b\<rparr>"
  by (simp add: spread_TextLayer_def no_updates_def spread_key_def)

lemma spread_spacing:
  "spread_TextLayer el (no_updates\<lparr>upd_spacing := Some v\<rparr>) = el\<lparr>tl_spacing := v\<rparr>"
  by (simp add: spread_TextLayer_def no_updates_def spread_key_def)

text \<open>One pointer-move during a drag.\<close>

lemma handleMouseMove_dragging:
  assumes "isDragging st" "truthy (selectedElementId st)" "dragged_layer st = Some el"
  shows "dragged_layer (handleMouseMove e st) =
           Some (el\<lparr>tl_x := tl_x el + (fst e - fst (dragStart st)),
                    tl_y := tl_y el + (snd e - snd (dragStart st))\<rparr>)"
    and "dragStart (handleMouseMove e st) = e"
    and "isDragging (handleMouseMove e st)"
    and "selectedElementId (handleMouseMove e st) = selectedElementId st"
proof -
  let ?P = "\<lambda>el. Some (tl_id el) = selectedElementId st"
  let ?u = "no_updates\<lparr>upd_x := Some (tl_x el + (fst e - fst (dragStart st))),
                        upd_y := Some (tl_y el + (snd e - snd (dragStart st)))\<rparr>"
  have found: "find ?P (textElements (logoSettings st)) = Some el"
    using assms(3) by (simp add: dragged_layer_def)
  have move: "handleMouseMove e st = (updateSelectedText ?u st)\<lparr>dragStart := e\<rparr>"
    using assms(1,2) found by (simp add: handleMouseMove_def Let_def)
  have settings: "logoSettings ((updateSelectedText ?u st)\<lparr>dragStart := e\<rparr>) =
                  logoSettings (updateSelectedText ?u st)"
    by (rule logoSettings_frame)
  have "find ?P (map (\<lambda>el. if ?P el then spread_TextLayer el ?u else el)
                  (textElements (logoSettings st)))
        = map_option (\<lambda>el. spread_TextLayer el ?u) (find ?P (textElements (logoSettings st)))"
    by (rule find_map_update) (simp add: spread_xy)
  then show "dragged_layer (handleMouseMove e st) =
           Some (el\<lparr>tl_x := tl_x el + (fst e - fst (dragStart st)),
                    tl_y := tl_y el + (snd e - snd (dragStart st))\<rparr>)"
    using assms(2) found
    by (simp add: move dragged_layer_def settings textElements_updateSelectedText
        fields_updateSelectedText spread_xy)
  show "dragStart (handleMouseMove e st) = e"
    by (simp add: move)
  show "isDragging (handleMouseMove e st)"
    using assms(1) by (simp add: move fields_updateSelectedText)
  show "selectedElementId (handleMouseMove e st) = selectedElementId st"
    by (simp add: move fields_updateSelectedText)
qed

text \<open>A handler that runs on the state it was rendered from is the handler above.\<close>

lemma updateLogoSettings_closure_fresh:
  "updateLogoSettings_closure st newSettings st = updateLogoSettings newSettings st"
  by (simp add: updateLogoSettings_closure_def updateLogoSettings_def)

lemma updateSelectedText_closure_fresh:
  "updateSelectedText_closure st updates st = updateSelectedText updates st"
  by (simp add: updateSelectedText_closure_def updateSelectedText_def
      updateLogoSettings_closure_fresh)

lemma handleMouseMove_closure_fresh:
  "handleMouseMove_closure st e st = handleMouseMove e st"
  by (simp add: handleMouseMove_closure_def handleMouseMove_def updateSelectedText_closure_fresh
      split: option.split)

text \<open>
  A pointer-move of a closure of the render \<open>r\<close>: the new settings are those of \<open>r\<close> with
  the dragged layer of \<open>r\<close> moved by the delta; what the current state holds is lost.
\<close>

lemma handleMouseMove_closure_dragging:
  assumes "isDragging st" "truthy (selectedElementId r)" "dragged_layer r = Some el"
  shows "logoSettings (handleMouseMove_closure r e st) =
           (logoSettings r)\<lparr>textElements :=
              map (\<lambda>x. if Some (tl_id x) = selectedElementId r
                        then x\<lparr>tl_x := tl_x el + (fst e - fst (dragStart st)),
                                tl_y := tl_y el + (snd e - snd (dragStart st))\<rparr>
                        else x)
                (textElements (logoSettings r))\<rparr>"
    and "dragStart (handleMouseMove_closure r e st) = e"
    and "isDragging (handleMouseMove_closure r e st)"
    and "selectedElementId (handleMouseMove_closure r e st) = selectedElementId st"
proof -
  let ?u = "no_updates\<lparr>upd_x := Some (tl_x el + (fst e - fst (dragStart st))),
                        upd_y := Some (tl_y el + (snd e - snd (dragStart st)))\<rparr>"
  have found: "find (\<lambda>el. Some (tl_id el) = selectedElementId r) (textElements (logoSettings r))
               = Some el"
    using assms(3) by (simp add: dragged_layer_def)
  have move: "handleMouseMove_closure r e st = (updateSelectedText_closure r ?u st)\<lparr>dragStart := e\<rparr>"
    using assms(1,2) found by (simp add: handleMouseMove_closure_def Let_def)
  have upd: "updateSelectedText_closure r ?u st =
        st\<lparr>stored_logoSettings := Some ((logoSettings r)\<lparr>textElements :=
              map (\<lambda>x. if Some (tl_id x) = selectedElementId r
                        then x\<lparr>tl_x := tl_x el + (fst e - fst (dragStart st)),
                                tl_y := tl_y el + (snd e - snd (dragStart st))\<rparr>
                        else x)
                (textElements (logoSettings r))\<rparr>),
           palette_color0 := palette_color0 r\<rparr>"
    using assms(2)
    by (simp add: updateSelectedText_closure_def updateLogoSettings_closure_def Let_def
        spread_only_textElements spread_xy)
  show "logoSettings (handleMouseMove_closure r e st) =
           (logoSettings r)\<lparr>textElements :=
              map (\<lambda>x. if Some (tl_id x) = selectedElementId r
                        then x\<lparr>tl_x := tl_x el + (fst e - fst (dragStart st)),
                                tl_y := tl_y el + (snd e - snd (dragStart st))\<rparr>
                        else x)
                (textElements (logoSettings r))\<rparr>"
    unfolding move upd by (simp add: logoSettings_def)
  show "dragStart (handleMouseMove_closure r e st) = e"
    by (simp add: move)
  show "isDragging (handleMouseMove_closure r e st)"
    using assms(1) unfolding move upd by simp
  show "selectedElementId (handleMouseMove_closure r e st) = selectedElementId st"
    unfolding move upd by simp
qed

text \<open>With a render after every pointer-move the deltas add up.\<close>

lemma drag_rendered_sum:
  assumes "isDragging st" "truthy (selectedElementId st)" "dragged_layer st = Some el"
  shows "\<exists>st'. drag_events (rendered_moves ds) (st, st) = (st', st')
           \<and> dragged_layer st' =
               Some (el\<lparr>tl_x := tl_x el + sum_list (map fst ds),
                        tl_y := tl_y el + sum_list (map snd ds)\<rparr>)"
  using assms
proof (induction ds arbitrary: st el)
  case Nil
  then show ?case by (simp add: rendered_moves_def)
next
  case (Cons d ds)
  let ?e = "(fst (dragStart st) + fst d, snd (dragStart st) + snd d)"
  let ?st = "handleMouseMove ?e st"
  let ?el = "el\<lparr>tl_x := tl_x el + fst d, tl_y := tl_y el + snd d\<rparr>"
  have layer: "dragged_layer ?st = Some ?el"
    using handleMouseMove_dragging(1)[OF Cons.prems, of ?e] by simp
  have dragging: "isDragging ?st"
    by (rule handleMouseMove_dragging(3)[OF Cons.prems])
  have selected: "truthy (selectedElementId ?st)"
    using handleMouseMove_dragging(4)[OF Cons.prems, of ?e] Cons.prems(2) by simp
  have step: "drag_events (rendered_moves (d # ds)) (st, st) =
              drag_events (rendered_moves ds) (?st, ?st)"
    by (simp add: rendered_moves_def handleMouseMove_closure_fresh)
  from Cons.IH[OF dragging selected layer] show ?case
    unfolding step by (simp add: add.assoc)
qed

lemma remdups_all_same:
  assumes "\<forall>x \<in> set xs. x = a"
  shows "length (remdups xs) \<le> 1"
proof -
  from assms have "set xs \<subseteq> {a}" by auto
  then have "card (set xs) \<le> card {a}" by (intro card_mono) simp_all
  then show ?thesis by (simp add: length_remdups_card_conv)
qed

lemma selectedIds_at_most_one: "length (selectedIds st) \<le> 1"
proof (cases "selectedElementId st")
  case None
  then show ?thesis by (simp add: selectedIds_def)
next
  case (Some i)
  show ?thesis
    unfolding selectedIds_def
    by (rule remdups_all_same[where a = i]) (auto simp: Some)
qed

lemma set_selectedIds: "set (selectedIds st) \<subseteq> {i. selectedElementId st = Some i}"
  by (auto simp: selectedIds_def)

lemma selectedIds_None: "selectedElementId st = None \<Longrightarrow> selectedIds st = []"
  by (simp add: selectedIds_def)

lemma textElements_deleteSelectedText:
  "truthy (selectedElementId st) \<Longrightarrow>
   textElements (logoSettings (deleteSelectedText st)) =
     filter (\<lambda>el. Some (tl_id el) \<noteq> selectedElementId st) (textElements (logoSettings st))"
  by (simp add: deleteSelectedText_def Let_def logoSettings_frame
      logoSettings_updateLogoSettings spread_only_textElements)

text \<open>The concrete editors.\<close>

lemma editor0_facts:
  "logoSettings editor0 = settings0"
  "textElements settings0 = [layer0, layer1]"
  "selectedElementId editor0 = Some ''1730000000000''"
  "isDragging editor0"
  "dragStart editor0 = (10, 10)"
  "tl_id layer0 = ''1730000000000''"
  "tl_id layer1 = ''1730000000777''"
  by (simp_all add: editor0_def settings0_def layer0_def layer1_def logoSettings_def)

lemma editor_stale_facts:
  "logoSettings editor_stale = settings0"
  "selectedElementId editor_stale = Some ''1720000000000''"
  by (simp_all add: editor_stale_def editor0_def logoSettings_def)

section \<open>Facts about the export\<close>

lemma drawn_texts_append: "drawn_texts (xs @ ys) = drawn_texts xs @ drawn_texts ys"
  by (induction xs rule: drawn_texts.induct) simp_all

lemma drawn_images_append: "drawn_images (xs @ ys) = drawn_images xs @ drawn_images ys"
  by (induction xs rule: drawn_images.induct) simp_all

lemma filled_colors_append: "filled_colors (xs @ ys) = filled_colors xs @ filled_colors ys"
  by (induction xs rule: filled_colors.induct) simp_all

text \<open>What each step adds to what the document shows.\<close>

lemma shown_addText:
  "drawn_texts (doc (addText lib t fontsize style color st)) =
     drawn_texts (doc st) @ [splitTextToSize lib fontsize style t (contentWidth lib)]"
  "drawn_images (doc (addText lib t fontsize style color st)) = drawn_images (doc st)"
  "filled_colors (doc (addText lib t fontsize style color st)) = filled_colors (doc st)"
  by (simp_all add: addText_def Let_def drawn_texts_append drawn_images_append
      filled_colors_append)

lemma shown_skip:
  "doc (skip dy st) = doc st"
  by (simp add: skip_def)

lemma shown_newPage:
  "drawn_texts (doc (newPage st)) = drawn_texts (doc st)"
  "drawn_images (doc (newPage st)) = drawn_images (doc st)"
  "filled_colors (doc (newPage st)) = filled_colors (doc st)"
  by (simp_all add: newPage_def drawn_texts_append drawn_images_append filled_colors_append)

lemma shown_emit:
  "drawn_texts (doc (emit calls st)) = drawn_texts (doc st) @ drawn_texts calls"
  "drawn_images (doc (emit calls st)) = drawn_images (doc st) @ drawn_images calls"
  "filled_colors (doc (emit calls st)) = filled_colors (doc st) @ filled_colors calls"
  by (simp_all add: emit_def drawn_texts_append drawn_images_append filled_colors_append)

lemma shown_swatches:
  "swatches lib xOffset y cs = Inr calls \<Longrightarrow>
   drawn_texts calls = map (\<lambda>c. [c]) cs \<and> filled_colors calls = cs \<and> drawn_images calls = []"
proof (induction cs arbitrary: xOffset calls)
  case Nil
  then show ?case by simp
next
  case (Cons c cs)
  from Cons.prems obtain rest where
    rest: "swatches lib (xOffset + 35) y cs = Inr rest" and
    calls: "calls = [SetFillColor c, Rect xOffset y 30 30 ''F'', SetFontSize 10,
                     SetTextColor 60 60 60, DocText [c] xOffset (y + 36) None] @ rest"
    by (auto split: if_splits sum.splits)
  from Cons.IH[OF rest] show ?case
    by (simp add: calls)
qed

lemma swatches_readable:
  "\<forall>c \<in> set cs. \<not> setFillColor_throws lib c \<Longrightarrow> \<exists>calls. swatches lib xOffset y cs = Inr calls"
proof (induction cs arbitrary: xOffset)
  case Nil
  then show ?case by simp
next
  case (Cons c cs)
  then obtain rest where "swatches lib (xOffset + 35) y cs = Inr rest"
    by fastforce
  with Cons.prems show ?case by simp
qed

lemma shown_strategy_pages:
  "drawn_texts (doc (strategy_pages lib project d st)) =
     drawn_texts (doc st) @
     [splitTextToSize lib 18 Bold ''Strategic Overview'' (contentWidth lib),
      splitTextToSize lib 12 Normal (''Industry: '' @ industry project) (contentWidth lib),
      splitTextToSize lib 12 Normal (''Tone: '' @ tone project) (contentWidth lib),
      splitTextToSize lib 14 Bold ''Vision & Mission'' (contentWidth lib),
      splitTextToSize lib 11 Normal (story_vision d) (contentWidth lib),
      splitTextToSize lib 11 Normal (story_mission d) (contentWidth lib),
      splitTextToSize lib 14 Bold ''Strategic Positioning'' (contentWidth lib),
      splitTextToSize lib 11 Normal (story_positioning d) (contentWidth lib),
      splitTextToSize lib 18 Bold ''Visual Identity System'' (contentWidth lib),
      splitTextToSize lib 14 Bold ''Color Palette'' (contentWidth lib)]"
  "drawn_images (doc (strategy_pages lib project d st)) = drawn_images (doc st)"
  "filled_colors (doc (strategy_pages lib project d st)) = filled_colors (doc st)"
  by (simp_all add: strategy_pages_def run_steps_def shown_addText shown_skip shown_newPage)

lemma shown_identity_page:
  "drawn_texts (doc (identity_page lib d st)) =
     drawn_texts (doc st) @
     [splitTextToSize lib 14 Bold ''Typography'' (contentWidth lib),
      splitTextToSize lib 11 Normal (''Logo Font: '' @ fonts_logo d) (contentWidth lib),
      splitTextToSize lib 11 Normal (''Heading Font: '' @ fonts_heading d) (contentWidth lib),
      splitTextToSize lib 11 Normal (''Body Font: '' @ fonts_body d) (contentWidth lib),
      splitTextToSize lib 14 Bold ''Marketing Content'' (contentWidth lib),
      splitTextToSize lib 11 Normal (marketing_shortDescription d) (contentWidth lib)]"
  "drawn_images (doc (identity_page lib d st)) = drawn_images (doc st)"
  "filled_colors (doc (identity_page lib d st)) = filled_colors (doc st)"
  by (simp_all add: identity_page_def run_steps_def shown_addText shown_skip)

lemma shown_cover_page:
  "drawn_texts (cover_page lib project d) =
     [[or_string (name project) ''Brand Name''], [''BrandForge AI Generated Identity'']]"
  "filled_colors (cover_page lib project d) = []"
  "drawn_images (cover_page lib project d) = drawn_images (fst (cover_icon lib d))"
  by (auto simp add: cover_page_def cover_title_def cover_footer_def cover_icon_def
      drawn_texts_append drawn_images_append filled_colors_append split: option.splits)

text \<open>The three ways an export of a project with generated data ends.\<close>

lemma exportToPDF_no_palette:
  assumes "generatedData project = Some d" and "selected_palette d = None"
  shows "exportToPDF lib project = Uncaught TypeError (snd (cover_icon lib d))"
  using assms by (simp add: exportToPDF_def Let_def)

lemma exportToPDF_colour_throws:
  assumes "generatedData project = Some d" and "selected_palette d = Some palette"
    and "swatches lib margin
           (cursor (strategy_pages lib project d \<lparr>doc = cover_page lib project d, cursor = 20\<rparr>))
           (colors palette) = Inl e"
  shows "exportToPDF lib project = Uncaught e (snd (cover_icon lib d))"
  using assms by (simp add: exportToPDF_def Let_def)

lemma exportToPDF_Saved:
  assumes "generatedData project = Some d" and "selected_palette d = Some palette"
    and "swatches lib margin
           (cursor (strategy_pages lib project d \<lparr>doc = cover_page lib project d, cursor = 20\<rparr>))
           (colors palette) = Inr calls"
  shows "exportToPDF lib project =
           Saved (replace_ws False (name project) @ ''_BrandKit.pdf'')
             (doc (identity_page lib d
                (emit calls
                   (strategy_pages lib project d \<lparr>doc = cover_page lib project d, cursor = 20\<rparr>))))
             (snd (cover_icon lib d))"
  using assms by (simp add: exportToPDF_def Let_def)

lemma exportToPDF_not_silent:
  assumes "generatedData project = Some d"
  shows "is_saved (exportToPDF lib project) \<or> is_thrown (exportToPDF lib project)"
  using assms by (simp add: exportToPDF_def Let_def split: option.split sum.split)

text \<open>The icon of a project plays no part after the cover page.\<close>

lemma cover_icon_unusable:
  "icon_missing d \<or> icon_fails_to_decode lib d \<Longrightarrow>
   cover_icon lib d = ([], if icon_fails_to_decode lib d then [AddImageError] else [])"
  by (auto simp: cover_icon_def icon_missing_def icon_fails_to_decode_def truthy_def
      split: option.splits)

lemma strategy_pages_without_icon:
  "strategy_pages lib (project\<lparr>generatedData := g\<rparr>) (d\<lparr>logoIconUrl := u\<rparr>) =
   strategy_pages lib project d"
  by (simp add: strategy_pages_def)

lemma identity_page_without_icon:
  "identity_page lib (d\<lparr>logoIconUrl := u\<rparr>) = identity_page lib d"
  by (simp add: identity_page_def)

lemma selected_palette_without_icon:
  "selected_palette (d\<lparr>logoIconUrl := u\<rparr>) = selected_palette d"
  by (simp add: selected_palette_def)

lemma cover_page_without_icon:
  "fst (cover_icon lib d) = [] \<Longrightarrow>
   cover_page lib (project\<lparr>generatedData := g\<rparr>) (d\<lparr>logoIconUrl := None\<rparr>) =
   cover_page lib project d"
  by (simp add: cover_page_def cover_icon_def cover_title_def)

lemma exportToPDF_without_icon:
  assumes "generatedData project = Some d" and "fst (cover_icon lib d) = []"
  shows "exportToPDF lib project =
           (case exportToPDF lib (without_icon project) of
              Saved file calls console \<Rightarrow> Saved file calls (snd (cover_icon lib d))
            | Uncaught e console \<Rightarrow> Uncaught e (snd (cover_icon lib d))
            | ReturnedSilently \<Rightarrow> ReturnedSilently)"
  using assms
  by (simp add: exportToPDF_def Let_def without_icon_def strategy_pages_without_icon
      identity_page_without_icon selected_palette_without_icon cover_page_without_icon
      split: option.splits sum.splits)

text \<open>The concrete project.\<close>

lemma project0_facts:
  "generatedData project0 = Some data0"
  "selected_palette data0 = Some palette0"
  "logoIconUrl data0 = Some ''data:image/png;base64,AAAA''"
  "addImage_throws lib0 url"
  "\<not> setFillColor_throws lib0 c"
  "generatedData project_no_data = None"
  "colors palette0 = [''#4f46e5'', ''#ffffff'']"
  by (simp_all add: project0_def data0_def selected_palette_def index_opt_def or_number_def
      lib0_def project_no_data_def palette0_def)

section \<open>The claims\<close>

subsection \<open>C1: shape and size\<close>

text \<open>
  Claim C1 says that the rectangle button sets the size to 500 by 300 and that each of the
  other seven buttons, the oval among them, sets it to 400 by 400. The oval button does
  not: it has a branch of its own that sets 500 by 300, as the rectangle's does.
\<close>

theorem shape_onClick_oval_counterexample:
  "\<not> (width (logoSettings (shape_onClick Oval editor0)) = 400
      \<and> height (logoSettings (shape_onClick Oval editor0)) = 400)"
  by (simp add: shape_onClick_def logoSettings_updateLogoSettings spread_LogoSettings_def
      spread_key_def no_settings_def)

text \<open>
  Claim C1, as amended: for every prior state of the editor, the button of a shape sets
  that shape together with the size 500 by 300 when the shape is rectangle or oval, and
  with the size 400 by 400 for each of the six other shapes.
\<close>

theorem shape_onClick_resets_size:
  "shape (logoSettings (shape_onClick s st)) = s
   \<and> width (logoSettings (shape_onClick s st)) = (if s = Rectangle \<or> s = Oval then 500 else 400)
   \<and> height (logoSettings (shape_onClick s st)) = (if s = Rectangle \<or> s = Oval then 300 else 400)"
  by (simp add: shape_onClick_def logoSettings_updateLogoSettings spread_LogoSettings_def
      spread_key_def no_settings_def)

text \<open>From a 520 by 310 rectangle: the rectangle button and the circle button.\<close>

theorem shape_onClick_resets_size_witness:
  "width (logoSettings editor0) = 520 \<and> height (logoSettings editor0) = 310
   \<and> width (logoSettings (shape_onClick Rectangle editor0)) = 500
   \<and> height (logoSettings (shape_onClick Rectangle editor0)) = 300
   \<and> width (logoSettings (shape_onClick Circle editor0)) = 400
   \<and> height (logoSettings (shape_onClick Circle editor0)) = 400"
  using shape_onClick_resets_size[of Rectangle editor0] shape_onClick_resets_size[of Circle editor0]
  by (simp add: editor0_facts settings0_def)

subsection \<open>C2: dragging\<close>

text \<open>
  Claim C2: during a drag, a pointer-move adds the pointer position minus the last recorded
  position to the x and y of the dragged layer and records the new pointer position, and
  hence after any finite sequence of pointer-moves the layer is at its start plus the sums
  of the deltas. One pointer-move of a handler that runs on the state it was rendered from
  does so (\<open>handleMouseMove_dragging\<close>), and so does a sequence with a render after every
  move (\<open>drag_rendered_sum\<close>). Pointer-moves handled by the closures of one render do
  not: each one takes the position of the layer from that render, and the last one wins.
  On the layer at (100, 100) and the deltas (3, 0), (0, 4), (-1, -1), three moves on one
  render end at (99, 99), the same moves with a render after each at (102, 103).
\<close>

theorem drag_moves_on_one_render:
  "map_option (\<lambda>el. (tl_x el, tl_y el)) (dragged_layer editor0) = Some (100, 100)
   \<and> map_option (\<lambda>el. (tl_x el, tl_y el))
        (dragged_layer (snd (drag_events [Move (3, 0), Move (0, 4), Move (- 1, - 1)]
           (editor0, editor0)))) = Some (99, 99)
   \<and> map_option (\<lambda>el. (tl_x el, tl_y el))
        (dragged_layer (snd (drag_events (rendered_moves [(3, 0), (0, 4), (- 1, - 1)])
           (editor0, editor0)))) = Some (102, 103)"
proof -
  let ?r = editor0
  let ?st1 = "handleMouseMove_closure ?r (fst (dragStart ?r) + 3, snd (dragStart ?r) + 0) ?r"
  let ?st2 = "handleMouseMove_closure ?r (fst (dragStart ?st1) + 0, snd (dragStart ?st1) + 4) ?st1"
  let ?st3 = "handleMouseMove_closure ?r (fst (dragStart ?st2) + (- 1), snd (dragStart ?st2) + (- 1)) ?st2"
  have layer: "dragged_layer ?r = Some layer0"
    by (simp add: dragged_layer_def editor0_facts)
  have dragging: "isDragging ?r" and selected: "truthy (selectedElementId ?r)"
    by (simp_all add: editor0_facts truthy_def)
  have d1: "isDragging ?st1"
    by (rule handleMouseMove_closure_dragging(3)[OF dragging selected layer])
  have d2: "isDragging ?st2"
    by (rule handleMouseMove_closure_dragging(3)[OF d1 selected layer])
  have s1: "selectedElementId ?st1 = selectedElementId ?r"
    by (rule handleMouseMove_closure_dragging(4)[OF dragging selected layer])
  have s2: "selectedElementId ?st2 = selectedElementId ?st1"
    by (rule handleMouseMove_closure_dragging(4)[OF d1 selected layer])
  have s3: "selectedElementId ?st3 = selectedElementId ?st2"
    by (rule handleMouseMove_closure_dragging(4)[OF d2 selected layer])
  have sel: "selectedElementId ?st3 = selectedElementId ?r"
    by (simp only: s3 s2 s1)
  have run: "drag_events [Move (3, 0), Move (0, 4), Move (- 1, - 1)] (?r, ?r) = (?r, ?st3)"
    by (simp only: drag_events.simps fst_conv snd_conv)
  have one_render: "map_option (\<lambda>el. (tl_x el, tl_y el)) (dragged_layer ?st3) = Some (99, 99)"
    unfolding dragged_layer_def sel
      handleMouseMove_closure_dragging(1)[OF d2 selected layer]
    by (simp add: editor0_facts layer0_def)
  have start: "map_option (\<lambda>el. (tl_x el, tl_y el)) (dragged_layer ?r) = Some (100, 100)"
    by (simp add: layer layer0_def)
  from drag_rendered_sum[OF dragging selected layer, of "[(3, 0), (0, 4), (- 1, - 1)]"]
  have rendered: "map_option (\<lambda>el. (tl_x el, tl_y el))
        (dragged_layer (snd (drag_events (rendered_moves [(3, 0), (0, 4), (- 1, - 1)])
           (?r, ?r)))) = Some (102, 103)"
    by (auto simp add: layer0_def)
  from start one_render rendered show ?thesis
    unfolding run by simp
qed

subsection \<open>C3: the style table\<close>

text \<open>
  Claim C3: the border radius and the clip path of the container are those of the fixed
  table, for every container state. Circle and oval give 50 percent, rounded gives 40px,
  square and rectangle give 0, and no shape gives the container's own corner radius, all
  without a clip path; triangle gives the polygon with its apex at the top centre and its
  base at the two bottom corners, and hexagon a polygon of six distinct points that is its
  own mirror image in both axes of the box.
\<close>

theorem container_style_table:
  "(case spec_style_table (shape ls) (borderRadius ls) of
      BorderRadius r \<Rightarrow> borderRadius_style ls = r \<and> clipPath_style ls = ClipNone
    | ClipPath p \<Rightarrow> clipPath_style ls = p \<and> borderRadius_style ls = Px (borderRadius ls))
   \<and> borderRadius_style (ls\<lparr>shape := Circle\<rparr>) = Percent 50
   \<and> borderRadius_style (ls\<lparr>shape := Oval\<rparr>) = Percent 50
   \<and> borderRadius_style (ls\<lparr>shape := Rounded\<rparr>) = Px 40
   \<and> borderRadius_style (ls\<lparr>shape := Square\<rparr>) = Px 0
   \<and> borderRadius_style (ls\<lparr>shape := Rectangle\<rparr>) = Px 0
   \<and> borderRadius_style (ls\<lparr>shape := ShapeNone\<rparr>) = Px (borderRadius ls)
   \<and> clipPath_style (ls\<lparr>shape := Triangle\<rparr>) = Polygon [(50, 0), (0, 100), (100, 100)]
   \<and> (\<exists>pts. clipPath_style (ls\<lparr>shape := Hexagon\<rparr>) = Polygon pts
         \<and> length pts = 6 \<and> distinct pts
         \<and> set (map mirror_x pts) = set pts \<and> set (map mirror_y pts) = set pts)"
proof -
  have table:
    "(case spec_style_table (shape ls) (borderRadius ls) of
        BorderRadius r \<Rightarrow> borderRadius_style ls = r \<and> clipPath_style ls = ClipNone
      | ClipPath p \<Rightarrow> clipPath_style ls = p \<and> borderRadius_style ls = Px (borderRadius ls))"
    by (cases "shape ls") (simp_all add: borderRadius_style_def clipPath_style_def)
  have radii:
    "borderRadius_style (ls\<lparr>shape := Circle\<rparr>) = Percent 50"
    "borderRadius_style (ls\<lparr>shape := Oval\<rparr>) = Percent 50"
    "borderRadius_style (ls\<lparr>shape := Rounded\<rparr>) = Px 40"
    "borderRadius_style (ls\<lparr>shape := Square\<rparr>) = Px 0"
    "borderRadius_style (ls\<lparr>shape := Rectangle\<rparr>) = Px 0"
    "borderRadius_style (ls\<lparr>shape := ShapeNone\<rparr>) = Px (borderRadius ls)"
    by (simp_all add: borderRadius_style_def)
  have triangle:
    "clipPath_style (ls\<lparr>shape := Triangle\<rparr>) = Polygon [(50, 0), (0, 100), (100, 100)]"
    by (simp add: clipPath_style_def)
  have hexagon:
    "\<exists>pts. clipPath_style (ls\<lparr>shape := Hexagon\<rparr>) = Polygon pts
         \<and> length pts = 6 \<and> distinct pts
         \<and> set (map mirror_x pts) = set pts \<and> set (map mirror_y pts) = set pts"
    by (auto simp add: clipPath_style_def mirror_x_def mirror_y_def)
  from table radii triangle hexagon show ?thesis by blast
qed

text \<open>A rectangle with corner radius 12: radius 0; the same container without a shape: 12px.\<close>

theorem container_style_table_witness:
  "borderRadius_style settings0 = Px 0 \<and> clipPath_style settings0 = ClipNone
   \<and> borderRadius_style (settings0\<lparr>shape := ShapeNone\<rparr>) = Px 12"
  using container_style_table[of settings0]
  by (simp add: settings0_def)

subsection \<open>C4: selection\<close>

text \<open>
  Claim C4: after each event of every sequence of selection events, at most one id is
  drawn as selected. Pointer-down on a layer makes its id the selected one, so that no
  other id is selected; a click on the canvas background leaves nothing selected; and the
  Delete button, which is there when a layer is selected (it is rendered for a non-empty
  selected id only), leaves nothing selected.
\<close>

theorem selection_exclusive:
  "(\<forall>st' \<in> set (states_after st evs). length (selectedIds st') \<le> 1)
   \<and> selectedElementId (selection_step (PointerDown e i) st) = Some i
   \<and> (\<forall>j. j \<noteq> i \<longrightarrow> j \<notin> set (selectedIds (selection_step (PointerDown e i) st)))
   \<and> selectedElementId (selection_step BackgroundClick st) = None
   \<and> selectedIds (selection_step BackgroundClick st) = []
   \<and> (selectedElementId st \<noteq> Some [] \<longrightarrow>
        selectedElementId (selection_step DeleteSelected st) = None
        \<and> selectedIds (selection_step DeleteSelected st) = [])"
proof -
  have each: "\<forall>st' \<in> set (states_after st evs). length (selectedIds st') \<le> 1"
    using selectedIds_at_most_one by blast
  have down: "selectedElementId (selection_step (PointerDown e i) st) = Some i"
    by (simp add: handleMouseDown_def)
  have others: "\<forall>j. j \<noteq> i \<longrightarrow> j \<notin> set (selectedIds (selection_step (PointerDown e i) st))"
    using set_selectedIds[of "selection_step (PointerDown e i) st"] down by auto
  have background: "selectedElementId (selection_step BackgroundClick st) = None"
    by (simp add: canvas_onClick_def)
  have deleted: "selectedElementId st \<noteq> Some [] \<longrightarrow>
                 selectedElementId (selection_step DeleteSelected st) = None"
    by (cases "selectedElementId st") (auto simp: deleteSelectedText_def truthy_def Let_def)
  from each down others background deleted show ?thesis
    by (simp add: selectedIds_None)
qed

text \<open>
  Two layers: pointer-down on the first, on the second, a background click, pointer-down
  on the first again, and Delete.
\<close>

theorem selection_exclusive_witness:
  "list_all (\<lambda>st'. length (selectedIds st') \<le> 1)
     (states_after editor0
        [PointerDown (5, 5) ''1730000000000'', PointerDown (6, 6) ''1730000000777'',
         BackgroundClick, PointerDown (5, 5) ''1730000000000'', DeleteSelected])
   \<and> selectedIds editor0 = [''1730000000000'']
   \<and> selectedIds (selection_step (PointerDown (6, 6) ''1730000000777'') editor0)
       = [''1730000000777'']
   \<and> selectedElementId editor0 \<noteq> Some []
   \<and> selectedElementId (selection_step DeleteSelected editor0) = None"
proof -
  have "selectedIds (handleMouseDown (6, 6) ''1730000000777'' editor0) = [''1730000000777'']"
    by (simp add: selectedIds_def handleMouseDown_def logoSettings_frame editor0_facts)
  moreover have "selectedIds editor0 = [''1730000000000'']"
    by (simp add: selectedIds_def editor0_facts)
  ultimately show ?thesis
    using selection_exclusive[of editor0
        "[PointerDown (5, 5) ''1730000000000'', PointerDown (6, 6) ''1730000000777'',
          BackgroundClick, PointerDown (5, 5) ''1730000000000'', DeleteSelected]"
        "(6, 6)" "''1730000000777''"]
    by (simp add: list_all_iff editor0_facts)
qed

subsection \<open>C5: update with a stale id\<close>

text \<open>
  Claim C5: when the selected id matches no layer of the collection, the update of the
  selected text layer leaves the collection, and the settings around it, as they were,
  whatever the update names; the operation has no failing branch.
\<close>

theorem updateSelectedText_stale_id:
  assumes "\<forall>el \<in> set (textElements (logoSettings st)). Some (tl_id el) \<noteq> selectedElementId st"
  shows "textElements (logoSettings (updateSelectedText updates st)) = textElements (logoSettings st)
       \<and> logoSettings (updateSelectedText updates st) = logoSettings st
       \<and> selectedElementId (updateSelectedText updates st) = selectedElementId st"
proof -
  have same: "textElements (logoSettings (updateSelectedText updates st)) =
              textElements (logoSettings st)"
    using assms by (simp add: textElements_updateSelectedText map_unmatched)
  have "logoSettings (updateSelectedText updates st) = logoSettings st"
    by (subst logoSettings_updateSelectedText) (simp add: same)
  with same show ?thesis
    by (simp add: fields_updateSelectedText)
qed

text \<open>A selection left over from a removed layer, and an update of the text and the x.\<close>

theorem updateSelectedText_stale_id_witness:
  "textElements (logoSettings
      (updateSelectedText (no_updates\<lparr>upd_text := Some ''New'', upd_x := Some 7\<rparr>) editor_stale))
   = [layer0, layer1]"
proof -
  have "\<forall>el \<in> set (textElements (logoSettings editor_stale)).
          Some (tl_id el) \<noteq> selectedElementId editor_stale"
    by (simp add: editor_stale_facts editor0_facts)
  from updateSelectedText_stale_id[OF this] show ?thesis
    by (simp add: editor_stale_facts editor0_facts)
qed

subsection \<open>C6: pagination\<close>



subsection \<open>C7: letter spacing\<close>

text \<open>
  Claim C7: an attempt to set the letter spacing of the selected text layer to a value
  below -5 stores -5: the spacing slider, the one control that sets it, delivers its
  minimum for such a value, and the update stores what the slider delivers. Setting -5
  stores -5 and setting -6 stores -5, the other layers keep their spacing, and whatever
  is attempted, the stored spacing is not below -5.
\<close>

theorem spacing_floor:
  assumes "truthy (selectedElementId st)"
  shows "(v \<le> - 5 \<longrightarrow>
            textElements (logoSettings (spacing_onChange v st)) =
              map (\<lambda>el. if Some (tl_id el) = selectedElementId st
                         then el\<lparr>tl_spacing := - 5\<rparr> else el)
                (textElements (logoSettings st)))
       \<and> (\<forall>el \<in> set (textElements (logoSettings (spacing_onChange v st))).
            Some (tl_id el) = selectedElementId st \<longrightarrow> - 5 \<le> tl_spacing el)"
proof -
  have low: "range_value spacing_min spacing_max v = - 5" if "v \<le> - 5"
    using that by (simp add: range_value_def spacing_min_def spacing_max_def)
  have floor: "- 5 \<le> range_value spacing_min spacing_max v"
    by (simp add: range_value_def spacing_min_def spacing_max_def)
  have stored: "textElements (logoSettings (spacing_onChange v st)) =
              map (\<lambda>el. if Some (tl_id el) = selectedElementId st
                         then el\<lparr>tl_spacing := range_value spacing_min spacing_max v\<rparr> else el)
                (textElements (logoSettings st))"
    using assms by (simp add: spacing_onChange_def textElements_updateSelectedText spread_spacing)
  show ?thesis
    using low floor by (auto simp add: stored)
qed

text \<open>The selected layer of two: an attempt at -6 and one at -5; the other layer keeps 0.\<close>

theorem spacing_floor_witness:
  "map tl_spacing (textElements (logoSettings (spacing_onChange (- 6) editor0))) = [- 5, 0]
   \<and> map tl_spacing (textElements (logoSettings (spacing_onChange (- 5) editor0))) = [- 5, 0]"
proof -
  have "truthy (selectedElementId editor0)"
    by (simp add: editor0_facts truthy_def)
  from spacing_floor[OF this, of "- 6"] spacing_floor[OF this, of "- 5"] show ?thesis
    by (simp add: editor0_facts layer1_def layer0_def)
qed

subsection \<open>C8: an icon that cannot be drawn\<close>

text \<open>
  Claim C8 says that a missing icon, like one that fails to decode, is logged and skipped.
  A project without an icon is exported without a line on the console: the image is not
  attempted, so nothing fails and nothing is logged.
\<close>

theorem exportToPDF_missing_icon_counterexample:
  "icon_missing (data0\<lparr>logoIconUrl := None\<rparr>)
   \<and> is_saved (exportToPDF lib0 (project0\<lparr>generatedData := Some (data0\<lparr>logoIconUrl := None\<rparr>)\<rparr>))
   \<and> \<not> failure_logged
         (exportToPDF lib0 (project0\<lparr>generatedData := Some (data0\<lparr>logoIconUrl := None\<rparr>)\<rparr>))"
proof -
  let ?d = "data0\<lparr>logoIconUrl := None\<rparr>"
  let ?p = "project0\<lparr>generatedData := Some ?d\<rparr>"
  have palette: "selected_palette ?d = Some palette0"
    by (simp add: selected_palette_without_icon project0_facts)
  obtain calls where
    "swatches lib0 margin
       (cursor (strategy_pages lib0 ?p ?d \<lparr>doc = cover_page lib0 ?p ?d, cursor = 20\<rparr>))
       (colors palette0) = Inr calls"
    using swatches_readable[of "colors palette0" lib0] by (auto simp add: project0_facts)
  then have "exportToPDF lib0 ?p =
      Saved (replace_ws False (name ?p) @ ''_BrandKit.pdf'')
        (doc (identity_page lib0 ?d
           (emit calls (strategy_pages lib0 ?p ?d \<lparr>doc = cover_page lib0 ?p ?d, cursor = 20\<rparr>))))
        (snd (cover_icon lib0 ?d))"
    by (intro exportToPDF_Saved) (simp_all add: palette)
  then show ?thesis
    by (simp add: failure_logged_def cover_icon_def icon_missing_def truthy_def)
qed

text \<open>
  Claim C8, as amended: when the project has no icon, the icon is skipped and nothing is
  logged; when \<^verbatim>\<open>addImage\<close> throws on the icon, the failure is logged and the icon skipped.
  In both cases the export ends as the export of the same project without an icon does,
  but for the console; and where the selected palette exists and its colours are readable,
  the document is saved and shows no image, a filled rectangle for each colour of the
  palette, and every text of the cover, the strategy pages and the visual identity page,
  in their order.
\<close>

theorem exportToPDF_icon_failure:
  fixes lib project d
  defines "wrap \<equiv> (\<lambda>fontsize style t. splitTextToSize lib fontsize style t (contentWidth lib))"
  defines "logged \<equiv> (if icon_fails_to_decode lib d then [AddImageError] else [])"
  assumes "generatedData project = Some d"
    and "icon_missing d \<or> icon_fails_to_decode lib d"
  shows "exportToPDF lib project =
           (case exportToPDF lib (without_icon project) of
              Saved file calls console \<Rightarrow> Saved file calls logged
            | Uncaught e console \<Rightarrow> Uncaught e logged
            | ReturnedSilently \<Rightarrow> ReturnedSilently)
       \<and> (\<forall>palette.
            selected_palette d = Some palette
            \<and> (\<forall>c \<in> set (colors palette). \<not> setFillColor_throws lib c) \<longrightarrow>
            (\<exists>calls.
               exportToPDF lib project =
                 Saved (replace_ws False (name project) @ ''_BrandKit.pdf'') calls logged
               \<and> drawn_images calls = []
               \<and> filled_colors calls = colors palette
               \<and> drawn_texts calls =
                   [[or_string (name project) ''Brand Name''],
                    [''BrandForge AI Generated Identity''],
                    wrap 18 Bold ''Strategic Overview'',
                    wrap 12 Normal (''Industry: '' @ industry project),
                    wrap 12 Normal (''Tone: '' @ tone project),
                    wrap 14 Bold ''Vision & Mission'',
                    wrap 11 Normal (story_vision d),
                    wrap 11 Normal (story_mission d),
                    wrap 14 Bold ''Strategic Positioning'',
                    wrap 11 Normal (story_positioning d),
                    wrap 18 Bold ''Visual Identity System'',
                    wrap 14 Bold ''Color Palette'']
                   @ map (\<lambda>c. [c]) (colors palette)
                   @ [wrap 14 Bold ''Typography'',
                      wrap 11 Normal (''Logo Font: '' @ fonts_logo d),
                      wrap 11 Normal (''Heading Font: '' @ fonts_heading d),
                      wrap 11 Normal (''Body Font: '' @ fonts_body d),
                      wrap 14 Bold ''Marketing Content'',
                      wrap 11 Normal (marketing_shortDescription d)]))"
proof -
  have icon: "cover_icon lib d = ([], logged)"
    unfolding logged_def using assms(4) by (rule cover_icon_unusable)
  have same: "exportToPDF lib project =
           (case exportToPDF lib (without_icon project) of
              Saved file calls console \<Rightarrow> Saved file calls logged
            | Uncaught e console \<Rightarrow> Uncaught e logged
            | ReturnedSilently \<Rightarrow> ReturnedSilently)"
    using exportToPDF_without_icon[OF assms(3), of lib] by (simp add: icon split: outcome.splits)
  have shown: "\<exists>calls.
               exportToPDF lib project =
                 Saved (replace_ws False (name project) @ ''_BrandKit.pdf'') calls logged
               \<and> drawn_images calls = []
               \<and> filled_colors calls = colors palette
               \<and> drawn_texts calls =
                   [[or_string (name project) ''Brand Name''],
                    [''BrandForge AI Generated Identity''],
                    wrap 18 Bold ''Strategic Overview'',
                    wrap 12 Normal (''Industry: '' @ industry project),
                    wrap 12 Normal (''Tone: '' @ tone project),
                    wrap 14 Bold ''Vision & Mission'',
                    wrap 11 Normal (story_vision d),
                    wrap 11 Normal (story_mission d),
                    wrap 14 Bold ''Strategic Positioning'',
                    wrap 11 Normal (story_positioning d),
                    wrap 18 Bold ''Visual Identity System'',
                    wrap 14 Bold ''Color Palette'']
                   @ map (\<lambda>c. [c]) (colors palette)
                   @ [wrap 14 Bold ''Typography'',
                      wrap 11 Normal (''Logo Font: '' @ fonts_logo d),
                      wrap 11 Normal (''Heading Font: '' @ fonts_heading d),
                      wrap 11 Normal (''Body Font: '' @ fonts_body d),
                      wrap 14 Bold ''Marketing Content'',
                      wrap 11 Normal (marketing_shortDescription d)]"
    if palette: "selected_palette d = Some palette"
      and readable: "\<forall>c \<in> set (colors palette). \<not> setFillColor_throws lib c"
    for palette
  proof -
    let ?st1 = "strategy_pages lib project d \<lparr>doc = cover_page lib project d, cursor = 20\<rparr>"
    obtain sw where sw: "swatches lib margin (cursor ?st1) (colors palette) = Inr sw"
      using swatches_readable[OF readable] by blast
    have saved: "exportToPDF lib project =
                 Saved (replace_ws False (name project) @ ''_BrandKit.pdf'')
                   (doc (identity_page lib d (emit sw ?st1))) logged"
      using exportToPDF_Saved[OF assms(3) palette sw] by (simp add: icon)
    have images: "drawn_images (doc (identity_page lib d (emit sw ?st1))) = []"
      using shown_swatches[OF sw]
      by (simp add: shown_identity_page shown_emit shown_strategy_pages shown_cover_page icon)
    have fills: "filled_colors (doc (identity_page lib d (emit sw ?st1))) = colors palette"
      using shown_swatches[OF sw]
      by (simp add: shown_identity_page shown_emit shown_strategy_pages shown_cover_page)
    have texts: "drawn_texts (doc (identity_page lib d (emit sw ?st1))) =
                   [[or_string (name project) ''Brand Name''],
                    [''BrandForge AI Generated Identity''],
                    wrap 18 Bold ''Strategic Overview'',
                    wrap 12 Normal (''Industry: '' @ industry project),
                    wrap 12 Normal (''Tone: '' @ tone project),
                    wrap 14 Bold ''Vision & Mission'',
                    wrap 11 Normal (story_vision d),
                    wrap 11 Normal (story_mission d),
                    wrap 14 Bold ''Strategic Positioning'',
                    wrap 11 Normal (story_positioning d),
                    wrap 18 Bold ''Visual Identity System'',
                    wrap 14 Bold ''Color Palette'']
                   @ map (\<lambda>c. [c]) (colors palette)
                   @ [wrap 14 Bold ''Typography'',
                      wrap 11 Normal (''Logo Font: '' @ fonts_logo d),
                      wrap 11 Normal (''Heading Font: '' @ fonts_heading d),
                      wrap 11 Normal (''Body Font: '' @ fonts_body d),
                      wrap 14 Bold ''Marketing Content'',
                      wrap 11 Normal (marketing_shortDescription d)]"
      using shown_swatches[OF sw]
      by (simp add: shown_identity_page shown_emit shown_strategy_pages shown_cover_page
          wrap_def)
    from saved images fills texts show ?thesis by blast
  qed
  from same shown show ?thesis by blast
qed

text \<open>
  A project whose icon the library rejects: the document is saved with one line on the
  console, and it shows its two swatches and no image.
\<close>

theorem exportToPDF_icon_failure_witness:
  "icon_fails_to_decode lib0 data0
   \<and> (\<exists>calls.
         exportToPDF lib0 project0 = Saved ''Acme_Co_BrandKit.pdf'' calls [AddImageError]
         \<and> drawn_images calls = []
         \<and> filled_colors calls = [''#4f46e5'', ''#ffffff'']
         \<and> drawn_texts calls =
             [[''Acme Co''], [''BrandForge AI Generated Identity''], [''Strategic Overview''],
              [''Industry: Tools''], [''Tone: Bold''], [''Vision & Mission''], [''Vision''],
              [''Mission''], [''Strategic Positioning''], [''Positioning''],
              [''Visual Identity System''], [''Color Palette''], [''#4f46e5''], [''#ffffff''],
              [''Typography''], [''Logo Font: Montserrat''], [''Heading Font: Poppins''],
              [''Body Font: Lato''], [''Marketing Content''], [''Short'']])"
proof -
  have fails: "icon_fails_to_decode lib0 data0"
    by (simp add: icon_fails_to_decode_def project0_facts)
  then have unusable: "icon_missing data0 \<or> icon_fails_to_decode lib0 data0"
    by simp
  have fname: "replace_ws False (name project0) = ''Acme_Co''"
    by (simp add: project0_def space_length_def ascii_space_def unicode_spaces_def)
  have fields:
    "or_string (name project0) ''Brand Name'' = ''Acme Co''"
    "industry project0 = ''Tools''" "tone project0 = ''Bold''"
    "story_vision data0 = ''Vision''" "story_mission data0 = ''Mission''"
    "story_positioning data0 = ''Positioning''" "fonts_logo data0 = ''Montserrat''"
    "fonts_heading data0 = ''Poppins''" "fonts_body data0 = ''Lato''"
    "marketing_shortDescription data0 = ''Short''"
    "splitTextToSize lib0 fontsize style t maxWidth = [t]" for fontsize style t maxWidth
    by (simp_all add: project0_def data0_def lib0_def or_string_def)
  have palette: "selected_palette data0 = Some palette0
                 \<and> (\<forall>c \<in> set (colors palette0). \<not> setFillColor_throws lib0 c)"
    by (simp add: project0_facts)
  from exportToPDF_icon_failure[OF project0_facts(1) unusable, THEN conjunct2, rule_format,
      OF palette]
  obtain calls where
    "exportToPDF lib0 project0 = Saved ''Acme_Co_BrandKit.pdf'' calls [AddImageError]"
    "drawn_images calls = []"
    "filled_colors calls = [''#4f46e5'', ''#ffffff'']"
    "drawn_texts calls =
             [[''Acme Co''], [''BrandForge AI Generated Identity''], [''Strategic Overview''],
              [''Industry: Tools''], [''Tone: Bold''], [''Vision & Mission''], [''Vision''],
              [''Mission''], [''Strategic Positioning''], [''Positioning''],
              [''Visual Identity System''], [''Color Palette''], [''#4f46e5''], [''#ffffff''],
              [''Typography''], [''Logo Font: Montserrat''], [''Heading Font: Poppins''],
              [''Body Font: Lato''], [''Marketing Content''], [''Short'']]"
    by (auto simp add: fails fname fields project0_facts)
  with fails show ?thesis by blast
qed

subsection \<open>C9: how the export ends\<close>

text \<open>
  Claim C9 says that every export ends with a saved file or a logged failure. For a
  project without generated data the export returns at once: nothing is saved, nothing is
  printed, and no exception leaves it.
\<close>

theorem exportToPDF_silent_counterexample:
  "\<not> (is_saved (exportToPDF lib0 project_no_data)
      \<or> failure_logged (exportToPDF lib0 project_no_data))"
  by (simp add: exportToPDF_def project0_facts failure_logged_def)

text \<open>
  Claim C9, as amended: an export of a project with generated data never returns with
  neither: it ends with a saved document file, unless an exception leaves it. An export
  of a project without generated data returns at once, with nothing saved and nothing
  logged.
\<close>

theorem exportToPDF_outcomes:
  "(generatedData project = None \<longrightarrow> exportToPDF lib project = ReturnedSilently)
   \<and> (generatedData project \<noteq> None \<longrightarrow>
        exportToPDF lib project \<noteq> ReturnedSilently
        \<and> (\<not> is_thrown (exportToPDF lib project) \<longrightarrow> is_saved (exportToPDF lib project)))"
proof -
  have "exportToPDF lib project = ReturnedSilently" if "generatedData project = None"
    using that by (simp add: exportToPDF_def)
  moreover have "exportToPDF lib project \<noteq> ReturnedSilently
        \<and> (\<not> is_thrown (exportToPDF lib project) \<longrightarrow> is_saved (exportToPDF lib project))"
    if "generatedData project \<noteq> None"
  proof -
    from that obtain d where "generatedData project = Some d" by auto
    from exportToPDF_not_silent[OF this, of lib] show ?thesis by auto
  qed
  ultimately show ?thesis by blast
qed

text \<open>
  A project with generated data, whose export throws nothing and so saves the document,
  and the same project without generated data.
\<close>

theorem exportToPDF_outcomes_witness:
  "generatedData project0 \<noteq> None
   \<and> is_saved (exportToPDF lib0 project0)
   \<and> generatedData project_no_data = None
   \<and> exportToPDF lib0 project_no_data = ReturnedSilently"
proof -
  have data: "generatedData project0 \<noteq> None"
    by (simp add: project0_facts)
  obtain calls where
    "swatches lib0 margin
       (cursor (strategy_pages lib0 project0 data0
          \<lparr>doc = cover_page lib0 project0 data0, cursor = 20\<rparr>))
       (colors palette0) = Inr calls"
    using swatches_readable[of "colors palette0" lib0] by (auto simp add: project0_facts)
  then have "\<not> is_thrown (exportToPDF lib0 project0)"
    by (simp add: exportToPDF_Saved[OF project0_facts(1,2)])
  with exportToPDF_outcomes[of project0 lib0] data
  have saved: "is_saved (exportToPDF lib0 project0)"
    by blast
  from exportToPDF_outcomes[of project_no_data lib0]
  have silent: "exportToPDF lib0 project_no_data = ReturnedSilently"
    by (simp add: project0_facts)
  from data saved silent show ?thesis
    by (simp add: project0_facts)
qed

subsection \<open>C10: what an update leaves alone\<close>

text \<open>
  Claim C10 says that an update with any partial set of fields leaves the ids of the
  collection unchanged. An update may name the id itself, and then the id of the selected
  layer changes.
\<close>

theorem updateSelectedText_id_counterexample:
  "\<not> (map tl_id
        (textElements (logoSettings
           (updateSelectedText (no_updates\<lparr>upd_id := Some ''b''\<rparr>) editor0)))
      = map tl_id (textElements (logoSettings editor0)))"
  by (simp add: textElements_updateSelectedText spread_TextLayer_def spread_key_def
      no_updates_def editor0_facts truthy_def)

text \<open>
  Claim C10, as amended: for every update that does not name the id (or names it with the
  selected id itself), the collection keeps its length and its ids in their order; every
  layer whose id is not the selected one keeps all its fields; and every layer keeps each
  field the update does not name.
\<close>

theorem updateSelectedText_frame:
  assumes "upd_id updates = None \<or> upd_id updates = selectedElementId st"
  defines "xs \<equiv> textElements (logoSettings st)"
  defines "ys \<equiv> textElements (logoSettings (updateSelectedText updates st))"
  shows "length ys = length xs
       \<and> map tl_id ys = map tl_id xs
       \<and> (\<forall>k < length xs. Some (tl_id (xs ! k)) \<noteq> selectedElementId st \<longrightarrow> ys ! k = xs ! k)
       \<and> (\<forall>k < length xs.
           (upd_text updates = None \<longrightarrow> tl_text (ys ! k) = tl_text (xs ! k)) \<and>
           (upd_x updates = None \<longrightarrow> tl_x (ys ! k) = tl_x (xs ! k)) \<and>
           (upd_y updates = None \<longrightarrow> tl_y (ys ! k) = tl_y (xs ! k)) \<and>
           (upd_fontSize updates = None \<longrightarrow> tl_fontSize (ys ! k) = tl_fontSize (xs ! k)) \<and>
           (upd_fontFamily updates = None \<longrightarrow> tl_fontFamily (ys ! k) = tl_fontFamily (xs ! k)) \<and>
           (upd_color updates = None \<longrightarrow> tl_color (ys ! k) = tl_color (xs ! k)) \<and>
           (upd_spacing updates = None \<longrightarrow> tl_spacing (ys ! k) = tl_spacing (xs ! k)) \<and>
           (upd_rotation updates = None \<longrightarrow> tl_rotation (ys ! k) = tl_rotation (xs ! k)) \<and>
           (upd_fontWeight updates = None \<longrightarrow> tl_fontWeight (ys ! k) = tl_fontWeight (xs ! k)) \<and>
           (upd_align updates = None \<longrightarrow> tl_align (ys ! k) = tl_align (xs ! k)))"
proof -
  have len: "length ys = length xs"
    by (simp add: xs_def ys_def textElements_updateSelectedText)
  have same_id: "tl_id (spread_TextLayer el updates) = tl_id el"
    if "Some (tl_id el) = selectedElementId st" for el
    using assms(1) that[symmetric] by (auto simp: spread_TextLayer_def spread_key_def)
  have ids: "map tl_id ys = map tl_id xs"
    by (auto simp: xs_def ys_def textElements_updateSelectedText same_id)
  have others: "\<forall>k < length xs. Some (tl_id (xs ! k)) \<noteq> selectedElementId st \<longrightarrow> ys ! k = xs ! k"
    by (simp add: xs_def ys_def textElements_updateSelectedText)
  have fields: "\<forall>k < length xs.
           (upd_text updates = None \<longrightarrow> tl_text (ys ! k) = tl_text (xs ! k)) \<and>
           (upd_x updates = None \<longrightarrow> tl_x (ys ! k) = tl_x (xs ! k)) \<and>
           (upd_y updates = None \<longrightarrow> tl_y (ys ! k) = tl_y (xs ! k)) \<and>
           (upd_fontSize updates = None \<longrightarrow> tl_fontSize (ys ! k) = tl_fontSize (xs ! k)) \<and>
           (upd_fontFamily updates = None \<longrightarrow> tl_fontFamily (ys ! k) = tl_fontFamily (xs ! k)) \<and>
           (upd_color updates = None \<longrightarrow> tl_color (ys ! k) = tl_color (xs ! k)) \<and>
           (upd_spacing updates = None \<longrightarrow> tl_spacing (ys ! k) = tl_spacing (xs ! k)) \<and>
           (upd_rotation updates = None \<longrightarrow> tl_rotation (ys ! k) = tl_rotation (xs ! k)) \<and>
           (upd_fontWeight updates = None \<longrightarrow> tl_fontWeight (ys ! k) = tl_fontWeight (xs ! k)) \<and>
           (upd_align updates = None \<longrightarrow> tl_align (ys ! k) = tl_align (xs ! k))"
    by (simp add: xs_def ys_def textElements_updateSelectedText spread_TextLayer_def spread_key_def)
  from len ids others fields show ?thesis by blast
qed

text \<open>A new text for the selected layer of two: the other layer and the other fields stay.\<close>

theorem updateSelectedText_frame_witness:
  "textElements (logoSettings (updateSelectedText (no_updates\<lparr>upd_text := Some ''New''\<rparr>) editor0))
   = [layer0\<lparr>tl_text := ''New''\<rparr>, layer1]
   \<and> map tl_id
       (textElements (logoSettings (updateSelectedText (no_updates\<lparr>upd_text := Some ''New''\<rparr>) editor0)))
     = map tl_id (textElements (logoSettings editor0))"
proof -
  have named: "upd_id (no_updates\<lparr>upd_text := Some ''New''\<rparr>) = None
               \<or> upd_id (no_updates\<lparr>upd_text := Some ''New''\<rparr>) = selectedElementId editor0"
    by (simp add: no_updates_def)
  have result: "textElements (logoSettings
                  (updateSelectedText (no_updates\<lparr>upd_text := Some ''New''\<rparr>) editor0))
                = [layer0\<lparr>tl_text := ''New''\<rparr>, layer1]"
    by (simp add: textElements_updateSelectedText spread_TextLayer_def spread_key_def
        no_updates_def editor0_facts truthy_def layer0_def)
  show ?thesis
    using updateSelectedText_frame[OF named] by (simp add: result)
qed

end
